theory Spec2Isabelle
  imports Complex_Main "HOL-Library.Sublist" "HOL-Library.Word"
begin

section \<open>Python values, exceptions and effects\<close>

text \<open>
  The agent of \<^verbatim>\<open>knowledge-agent/agent.py\<close> is a set of thin adapters around three
  external services.  Every adapter method is embedded as a function that threads an
  explicit state and returns either a raised exception (\<open>Inl\<close>) or a value (\<open>Inr\<close>).
  A raised object carries the name of its class and the text that \<^verbatim>\<open>str(e)\<close> yields, and
  is of one of two kinds: \<open>PyExc\<close> is an instance of a subclass of Python's
  \<^verbatim>\<open>Exception\<close>, which the handlers \<^verbatim>\<open>except Exception as e\<close> of the source catch;
  \<open>PyBaseExc\<close> is an instance of a class that derives from \<^verbatim>\<open>BaseException\<close> only
  (\<^verbatim>\<open>asyncio.CancelledError\<close> at an \<^verbatim>\<open>await\<close>, \<^verbatim>\<open>KeyboardInterrupt\<close>,
  \<^verbatim>\<open>SystemExit\<close>), which those handlers let pass.
\<close>

datatype pyexc =
    is_exception: PyExc (exc_class: string) (exc_str: string)
  | PyBaseExc (exc_class: string) (exc_str: string)

type_synonym ('s, 'a) py = "'s \<Rightarrow> (pyexc + 'a) \<times> 's"

definition py_return :: "'a \<Rightarrow> ('s, 'a) py" where
  "py_return x = (\<lambda>s. (Inr x, s))"

definition py_raise :: "pyexc \<Rightarrow> ('s, 'a) py" where
  "py_raise e = (\<lambda>s. (Inl e, s))"

text \<open>Sequencing: a raised exception skips the rest; the state reached so far is kept.\<close>

definition py_bind :: "('s, 'a) py \<Rightarrow> ('a \<Rightarrow> ('s, 'b) py) \<Rightarrow> ('s, 'b) py" where
  "py_bind m f = (\<lambda>s. case m s of (Inl e, s') \<Rightarrow> (Inl e, s') | (Inr x, s') \<Rightarrow> f x s')"

text \<open>
  \<^verbatim>\<open>try: m  except Exception as e: h(e)\<close>: the handler runs for an instance of
  \<^verbatim>\<open>Exception\<close> only, in the state in which the exception was raised, so assignments
  made before the exception persist.  Anything else that is raised leaves the statement.
\<close>

definition py_try :: "('s, 'a) py \<Rightarrow> (pyexc \<Rightarrow> ('s, 'a) py) \<Rightarrow> ('s, 'a) py" where
  "py_try m h =
     (\<lambda>s. case m s of
            (Inl e, s') \<Rightarrow> if is_exception e then h e s' else (Inl e, s')
          | (Inr x, s') \<Rightarrow> (Inr x, s'))"

text \<open>\<^verbatim>\<open>d.get(k, dflt)\<close> on a dictionary.\<close>

definition dict_get :: "('k \<rightharpoonup> 'v) \<Rightarrow> 'k \<Rightarrow> 'v \<Rightarrow> 'v" where
  "dict_get d k dflt = (case d k of None \<Rightarrow> dflt | Some v \<Rightarrow> v)"

text \<open>
  The exception of an attribute access that the object's type does not support, with
  Python's text: \<^verbatim>\<open>'list' object has no attribute 'get'\<close>.
\<close>

definition quoted :: "string \<Rightarrow> string" where
  "quoted s = CHR 0x27 # s @ [CHR 0x27]"

definition attribute_error :: "string \<Rightarrow> string \<Rightarrow> pyexc" where
  "attribute_error type_name attr =
     PyExc ''AttributeError'' (quoted type_name @ '' object has no attribute '' @ quoted attr)"

text \<open>\<^verbatim>\<open>sep.join(parts)\<close> on a list of strings.\<close>

fun str_join :: "string \<Rightarrow> string list \<Rightarrow> string" where
  "str_join sep [] = []"
| "str_join sep [x] = x"
| "str_join sep (x # y # ys) = x @ sep @ str_join sep (y # ys)"

section \<open>GeminiLLM: flattening the message history\<close>

text \<open>
  A message is a dictionary from keys to text, as in
  \<^verbatim>\<open>{"role": "user", "content": prompt}\<close>; either key may be missing.
\<close>

type_synonym message = "string \<rightharpoonup> string"

text \<open>
  The loop of \<^verbatim>\<open>_convert_messages\<close>: \<open>prompt_parts\<close> is the accumulator, appended to
  at the end; a role that matches none of the three branches appends nothing.
\<close>

fun convert_loop :: "message list \<Rightarrow> string list \<Rightarrow> string list" where
  "convert_loop [] prompt_parts = prompt_parts"
| "convert_loop (msg # rest) prompt_parts =
     (let role = dict_get msg ''role'' ''user'';
          content = dict_get msg ''content'' ''''
      in convert_loop rest
           (if role = ''system'' then prompt_parts @ [''System: '' @ content]
            else if role = ''user'' then prompt_parts @ [''User: '' @ content]
            else if role = ''assistant'' then prompt_parts @ [''Assistant: '' @ content]
            else prompt_parts))"

definition convert_messages :: "message list \<Rightarrow> string" where
  "convert_messages messages = str_join ''\<newline>'' (convert_loop messages [])"

subsection \<open>The rendering the specification describes\<close>

text \<open>
  The specification's words: each message is rendered as \<open><Role>: <content>\<close>, the role
  capitalized.  \<open>capitalize\<close> turns a leading lower-case ASCII letter into upper case.
\<close>

definition upper_char :: "char \<Rightarrow> char" where
  "upper_char c =
     (if 97 \<le> (of_char c :: nat) \<and> (of_char c :: nat) \<le> 122
      then char_of ((of_char c :: nat) - 32) else c)"

fun capitalize :: "string \<Rightarrow> string" where
  "capitalize [] = []"
| "capitalize (c # cs) = upper_char c # cs"

definition message_role :: "message \<Rightarrow> string" where
  "message_role msg = dict_get msg ''role'' ''user''"

definition message_content :: "message \<Rightarrow> string" where
  "message_content msg = dict_get msg ''content'' ''''"

definition known_role :: "message \<Rightarrow> bool" where
  "known_role msg = (message_role msg \<in> {''system'', ''user'', ''assistant''})"

definition rendered_line :: "message \<Rightarrow> string" where
  "rendered_line msg = capitalize (message_role msg) @ '': '' @ message_content msg"


section \<open>The external collaborators\<close>

text \<open>
  The provider libraries, the HTTP client and the hosting session runtime are not part of
  the repository.  They are a parameter of the model: a record \<open>host\<close> of operations over
  an arbitrary world \<open>'w\<close>, each of which may return a value or raise, and may change the
  world.  Objects handed out by the libraries are opaque references.  Logging and the
  latency measurements around each call are left out: they compute no value that an
  adapter returns.
\<close>

datatype generative_model = GenerativeModelObj nat

datatype chat_session = ChatSessionObj nat

datatype vad = VadObj nat

text \<open>What \<^verbatim>\<open>response.text\<close> evaluates to on a model response: the text, or an exception.\<close>

datatype response = Response (response_text: "pyexc + string")

type_synonym bytes = "8 word list"

text \<open>
  A decoded JSON document as Python holds it.  An object is a dictionary, written as an
  association list in which the first binding of a key is the dictionary's entry.
\<close>

datatype json =
    JNull
  | JBool bool
  | JInt int
  | JFloat rat
  | JStr string
  | JArr "json list"
  | JObj "(string \<times> json) list"

text \<open>
  An HTTP response: its status, and what awaiting its body (\<^verbatim>\<open>response.json()\<close>,
  \<^verbatim>\<open>response.read()\<close>) yields.
\<close>

record 'a http_response =
  status :: int
  body :: "pyexc + 'a"

datatype form_data = FileData bytes | TextData string

datatype form_field = FormField string form_data "string option" "string option"

record agent_options =
  opt_instructions :: string
  opt_vad :: vad
  opt_tools :: "string list"

record 'w host =
  os_getenv :: "string \<Rightarrow> string option"
  genai_configure :: "string \<Rightarrow> ('w, unit) py"
  genai_GenerativeModel :: "string \<Rightarrow> ('w, generative_model) py"
  model_start_chat :: "generative_model \<Rightarrow> ('w, chat_session) py"
  chat_send_message :: "chat_session \<Rightarrow> string \<Rightarrow> ('w, response) py"
  session_post_form ::
    "string \<Rightarrow> (string \<times> string) list \<Rightarrow> form_field list \<Rightarrow> ('w, json http_response) py"
  session_post_json ::
    "string \<Rightarrow> (string \<times> string) list \<Rightarrow> json \<Rightarrow> ('w, bytes http_response) py"
  silero_VAD_load :: "('w, vad) py"
  Agent_init :: "agent_options \<Rightarrow> ('w, unit) py"
  session_say :: "string \<Rightarrow> bool \<Rightarrow> ('w, unit) py"

text \<open>Every call that leaves the repository's code is recorded, in order, in a trace.\<close>

datatype event =
    Configure string
  | NewGenerativeModel string
  | StartChat generative_model
  | SendMessage chat_session string
  | PostForm string "(string \<times> string) list" "form_field list"
  | PostJson string "(string \<times> string) list" json
  | VadLoad
  | AgentInit agent_options
  | Say string bool

record 'w sys =
  world :: 'w
  trace :: "event list"

definition call :: "event \<Rightarrow> ('w, 'a) py \<Rightarrow> ('w sys, 'a) py" where
  "call ev operation =
     (\<lambda>s. case operation (world s) of (r, w') \<Rightarrow> (r, \<lparr>world = w', trace = trace s @ [ev]\<rparr>))"

text \<open>A value that is computed without touching the state, possibly an exception.\<close>

definition py_lift :: "pyexc + 'a \<Rightarrow> ('s, 'a) py" where
  "py_lift r = (\<lambda>s. (r, s))"

text \<open>A method runs on a pair of its object \<open>self\<close> and the system state.\<close>

definition on_sys :: "('w sys, 'a) py \<Rightarrow> ('o \<times> 'w sys, 'a) py" where
  "on_sys m = (\<lambda>(self, s). case m s of (r, s') \<Rightarrow> (r, (self, s')))"

section \<open>GeminiLLM\<close>

record GeminiLLM =
  model :: generative_model
  chat :: "chat_session option"

definition GeminiLLM_init :: "'w host \<Rightarrow> string \<Rightarrow> string \<Rightarrow> ('w sys, GeminiLLM) py" where
  "GeminiLLM_init host api_key model_name =
     py_bind (call (Configure api_key) (genai_configure host api_key)) (\<lambda>_.
     py_bind (call (NewGenerativeModel model_name) (genai_GenerativeModel host model_name)) (\<lambda>m.
     py_return \<lparr>model = m, chat = None\<rparr>))"

text \<open>The reply \<^verbatim>\<open>{'choices': [{'message': {'content': ..., 'role': ...}}]}\<close>.\<close>

record reply_message =
  content :: string
  role :: string

record choice =
  message :: reply_message

record completion =
  choices :: "choice list"

datatype tool = Tool string string

text \<open>
  \<^verbatim>\<open>if not self.chat: self.chat = self.model.start_chat(history=[])\<close>; a chat session
  object is truthy, so the test is for \<^verbatim>\<open>None\<close>.
\<close>

definition init_chat :: "'w host \<Rightarrow> (GeminiLLM \<times> 'w sys, unit) py" where
  "init_chat host =
     (\<lambda>(self, s).
        if chat self = None
        then (case call (StartChat (model self)) (model_start_chat host (model self)) s of
                (Inl e, s') \<Rightarrow> (Inl e, (self, s'))
              | (Inr h, s') \<Rightarrow> (Inr (), (self\<lparr>chat := Some h\<rparr>, s')))
        else (Inr (), (self, s)))"

text \<open>\<^verbatim>\<open>self.chat.send_message(prompt)\<close>.\<close>

definition send_prompt :: "'w host \<Rightarrow> string \<Rightarrow> (GeminiLLM \<times> 'w sys, response) py" where
  "send_prompt host prompt =
     (\<lambda>(self, s).
        case chat self of
          None \<Rightarrow>
            (Inl (attribute_error ''NoneType'' ''send_message''), (self, s))
        | Some h \<Rightarrow>
            on_sys (call (SendMessage h prompt) (chat_send_message host h prompt)) (self, s))"

definition chat_completion ::
  "'w host \<Rightarrow> message list \<Rightarrow> tool list option \<Rightarrow> (GeminiLLM \<times> 'w sys, completion) py" where
  "chat_completion host messages tools =
     py_try
       (py_bind (py_return (convert_messages messages)) (\<lambda>prompt.
        py_bind (init_chat host) (\<lambda>_.
        py_bind (send_prompt host prompt) (\<lambda>response.
        py_bind (py_lift (response_text response)) (\<lambda>txt.
        py_return
          \<lparr>choices = [\<lparr>message = \<lparr>content = txt, role = ''assistant''\<rparr>\<rparr>]\<rparr>)))))
       (\<lambda>e.
        py_return
          \<lparr>choices = [\<lparr>message =
             \<lparr>content = ''I apologize, but I encountered an error: '' @ exc_str e,
              role = ''assistant''\<rparr>\<rparr>]\<rparr>)"

section \<open>GladiaSTT\<close>

record GladiaSTT =
  stt_api_key :: string
  stt_base_url :: string

definition GladiaSTT_init :: "string \<Rightarrow> GladiaSTT" where
  "GladiaSTT_init api_key = \<lparr>stt_api_key = api_key, stt_base_url = ''https://api.gladia.io''\<rparr>"

definition py_type_name :: "json \<Rightarrow> string" where
  "py_type_name v =
     (case v of
        JNull \<Rightarrow> ''NoneType''
      | JBool _ \<Rightarrow> ''bool''
      | JInt _ \<Rightarrow> ''int''
      | JFloat _ \<Rightarrow> ''float''
      | JStr _ \<Rightarrow> ''str''
      | JArr _ \<Rightarrow> ''list''
      | JObj _ \<Rightarrow> ''dict'')"

text \<open>\<^verbatim>\<open>v.get(k, dflt)\<close> on a decoded JSON value: only a dictionary has the method.\<close>

definition json_get :: "json \<Rightarrow> string \<Rightarrow> json \<Rightarrow> pyexc + json" where
  "json_get v k dflt =
     (case v of
        JObj kvs \<Rightarrow> Inr (case map_of kvs k of None \<Rightarrow> dflt | Some x \<Rightarrow> x)
      | _ \<Rightarrow> Inl (attribute_error (py_type_name v) ''get''))"

text \<open>
  The result of opening the client session, posting and entering the response is one
  outcome of \<open>session_post_form\<close>: a failure of the transport anywhere is its exception.
  Leaving the two \<^verbatim>\<open>async with\<close> blocks is taken to return.
\<close>

definition stt_data :: "bytes \<Rightarrow> form_field list" where
  "stt_data audio_data =
     [FormField ''audio'' (FileData audio_data) (Some ''audio.wav'') (Some ''audio/wav''),
      FormField ''language'' (TextData ''en'') None None]"

definition stt_headers :: "GladiaSTT \<Rightarrow> (string \<times> string) list" where
  "stt_headers self = [(''X-Gladia-Key'', stt_api_key self)]"

definition stt_url :: "GladiaSTT \<Rightarrow> string" where
  "stt_url self = stt_base_url self @ ''/v2/transcription''"

definition recognize :: "'w host \<Rightarrow> GladiaSTT \<Rightarrow> bytes \<Rightarrow> ('w sys, json) py" where
  "recognize host self audio_data =
     py_try
       (let data = stt_data audio_data;
            headers = stt_headers self;
            url = stt_url self
        in py_bind (call (PostForm url headers data) (session_post_form host url headers data))
             (\<lambda>response.
                if status response = 200
                then py_bind (py_lift (body response)) (\<lambda>result.
                     py_bind (py_lift (json_get result ''transcription'' (JObj []))) (\<lambda>transcription.
                     py_bind (py_lift (json_get transcription ''full_transcript'' (JStr [])))
                       (\<lambda>transcript. py_return transcript)))
                else py_return (JStr [])))
       (\<lambda>e. py_return (JStr []))"

section \<open>MinimaxTTS\<close>

record MinimaxTTS =
  tts_api_key :: string
  tts_base_url :: string

definition MinimaxTTS_init :: "string \<Rightarrow> MinimaxTTS" where
  "MinimaxTTS_init api_key = \<lparr>tts_api_key = api_key, tts_base_url = ''https://api.minimax.chat''\<rparr>"

definition tts_payload :: "string \<Rightarrow> json" where
  "tts_payload txt =
     JObj [(''text'', JStr txt),
           (''voice_setting'',
              JObj [(''voice_id'', JStr ''presenter_male''),
                    (''speed'', JFloat 1),
                    (''vol'', JFloat 1),
                    (''pitch'', JInt 0)]),
           (''audio_setting'',
              JObj [(''sample_rate'', JInt 24000),
                    (''bitrate'', JInt 128000),
                    (''format'', JStr ''wav'')])]"

definition tts_headers :: "MinimaxTTS \<Rightarrow> (string \<times> string) list" where
  "tts_headers self =
     [(''Authorization'', ''Bearer '' @ tts_api_key self),
      (''Content-Type'', ''application/json'')]"

definition tts_url :: "MinimaxTTS \<Rightarrow> string" where
  "tts_url self = tts_base_url self @ ''/v1/text_to_speech''"

definition synthesize :: "'w host \<Rightarrow> MinimaxTTS \<Rightarrow> string \<Rightarrow> ('w sys, bytes) py" where
  "synthesize host self txt =
     py_try
       (let payload = tts_payload txt;
            headers = tts_headers self;
            url = tts_url self
        in py_bind (call (PostJson url headers payload) (session_post_json host url headers payload))
             (\<lambda>response.
                if status response = 200
                then py_bind (py_lift (body response)) (\<lambda>audio_data.
                     py_return audio_data)
                else py_return []))
       (\<lambda>e. py_return [])"

section \<open>HistoryAgent\<close>

record HistoryAgent =
  gemini_llm :: GeminiLLM
  gladia_stt :: GladiaSTT
  minimax_tts :: MinimaxTTS
  agent_context :: string

text \<open>Truthiness of what \<^verbatim>\<open>os.getenv\<close> returns: \<^verbatim>\<open>None\<close> and the empty string are false.\<close>

definition truthy :: "string option \<Rightarrow> bool" where
  "truthy v = (case v of None \<Rightarrow> False | Some x \<Rightarrow> x \<noteq> [])"

text \<open>\<^verbatim>\<open>all([...])\<close> on a list of values.\<close>

definition py_all :: "string option list \<Rightarrow> bool" where
  "py_all vs = list_all truthy vs"

definition base_instructions :: string where
  "base_instructions =
        ''\<newline>        You are a knowledgeable and enthusiastic history expert specializing in historical places, events, and cultural heritage.'' @
        ''\<newline>        '' @
        ''\<newline>        Your role:'' @
        ''\<newline>        - Share fascinating historical facts, stories, and insights'' @
        ''\<newline>        - Help users discover the rich history of places around the world'' @
        ''\<newline>        - Provide context about historical events, figures, and periods'' @
        ''\<newline>        - Make history engaging and accessible through vivid storytelling'' @
        ''\<newline>        - Connect past events to their modern significance'' @
        ''\<newline>        '' @
        ''\<newline>        Guidelines:'' @
        ''\<newline>        - Be passionate and engaging about historical topics'' @
        ''\<newline>        - Provide specific dates, names, and details when possible'' @
        ''\<newline>        - Use storytelling to bring historical events to life'' @
        ''\<newline>        - Encourage curiosity about history and cultural heritage'' @
        ''\<newline>        - If you don't know something specific, admit it but offer related information'' @
        ''\<newline>        - Keep responses conversational and informative'' @
        ''\<newline>        ''"

text \<open>
  \<^verbatim>\<open>HistoryAgent.__init__\<close>.  The three keys are read before anything else happens; the
  keys handed to the adapters are the values that passed the check.
\<close>

abbreviation missing_keys :: pyexc where
  "missing_keys \<equiv> PyExc ''ValueError'' ''Missing required API keys. Check your .env file.''"

definition HistoryAgent_init :: "'w host \<Rightarrow> string option \<Rightarrow> ('w sys, HistoryAgent) py" where
  "HistoryAgent_init host ctx =
     (let gemini_key = os_getenv host ''GEMINI_API_KEY'';
          gladia_key = os_getenv host ''GLADIA_API_KEY'';
          minimax_key = os_getenv host ''MINIMAX_API_KEY''
      in if \<not> py_all [gemini_key, gladia_key, minimax_key]
         then py_raise missing_keys
         else
           py_bind (GeminiLLM_init host (the gemini_key) ''gemini-1.5-pro'') (\<lambda>llm.
           let self = \<lparr>gemini_llm = llm,
                       gladia_stt = GladiaSTT_init (the gladia_key),
                       minimax_tts = MinimaxTTS_init (the minimax_key),
                       agent_context = (case ctx of None \<Rightarrow> [] | Some c \<Rightarrow> c)\<rparr>;
               instructions =
                 (if agent_context self \<noteq> []
                  then base_instructions @
                       ''\<newline>\<newline>Additional context for this conversation:\<newline>'' @
                       agent_context self
                  else base_instructions)
           in py_bind (call VadLoad (silero_VAD_load host)) (\<lambda>v.
              py_bind (call (AgentInit \<lparr>opt_instructions = instructions, opt_vad = v,
                                         opt_tools = [''get_historical_info'', ''explore_time_period'']\<rparr>)
                         (Agent_init host \<lparr>opt_instructions = instructions, opt_vad = v,
                                           opt_tools = [''get_historical_info'', ''explore_time_period'']\<rparr>))
                (\<lambda>_. py_return self))))"

text \<open>A method of the agent that calls a method of \<^verbatim>\<open>self.gemini_llm\<close>.\<close>

definition on_llm :: "(GeminiLLM \<times> 'w sys, 'a) py \<Rightarrow> (HistoryAgent \<times> 'w sys, 'a) py" where
  "on_llm m =
     (\<lambda>(self, s). case m (gemini_llm self, s) of
                     (r, (llm, s')) \<Rightarrow> (r, (self\<lparr>gemini_llm := llm\<rparr>, s')))"

definition custom_stt :: "'w host \<Rightarrow> bytes \<Rightarrow> (HistoryAgent \<times> 'w sys, json) py" where
  "custom_stt host audio_data =
     (\<lambda>(self, s). on_sys (recognize host (gladia_stt self) audio_data) (self, s))"

definition custom_llm ::
  "'w host \<Rightarrow> message list \<Rightarrow> tool list option \<Rightarrow> (HistoryAgent \<times> 'w sys, completion) py" where
  "custom_llm host messages tools = on_llm (chat_completion host messages tools)"

definition custom_tts :: "'w host \<Rightarrow> string \<Rightarrow> (HistoryAgent \<times> 'w sys, bytes) py" where
  "custom_tts host txt =
     (\<lambda>(self, s). on_sys (synthesize host (minimax_tts self) txt) (self, s))"

text \<open>\<^verbatim>\<open>xs[0]\<close>: an empty list raises.\<close>

definition first_item :: "'a list \<Rightarrow> pyexc + 'a" where
  "first_item xs =
     (case xs of [] \<Rightarrow> Inl (PyExc ''IndexError'' ''list index out of range'') | x # _ \<Rightarrow> Inr x)"

text \<open>The two prompt templates (f-strings over the tool's argument).\<close>

abbreviation historical_info_prompt :: "string \<Rightarrow> string" where
  "historical_info_prompt place_or_event \<equiv>
        ''\<newline>        Provide comprehensive historical information about: '' @
        place_or_event @
        ''\<newline>        '' @
        ''\<newline>        Include:'' @
        ''\<newline>        - Key historical facts and timeline'' @
        ''\<newline>        - Important figures and events'' @
        ''\<newline>        - Cultural and architectural significance'' @
        ''\<newline>        - Interesting stories or legends'' @
        ''\<newline>        - Modern-day relevance or status'' @
        ''\<newline>        '' @
        ''\<newline>        Make it engaging and educational, suitable for someone curious about history.'' @
        ''\<newline>        ''"

abbreviation time_period_prompt :: "string \<Rightarrow> string" where
  "time_period_prompt time_period \<equiv>
        ''\<newline>        Provide an engaging overview of the historical period: '' @
        time_period @
        ''\<newline>        '' @
        ''\<newline>        Include:'' @
        ''\<newline>        - Major events and developments'' @
        ''\<newline>        - Daily life and society'' @
        ''\<newline>        - Important figures and leaders'' @
        ''\<newline>        - Cultural achievements and innovations'' @
        ''\<newline>        - Lasting impact on modern world'' @
        ''\<newline>        '' @
        ''\<newline>        Make it vivid and immersive, as if taking someone on a journey through time.'' @
        ''\<newline>        ''"

definition get_historical_info :: "'w host \<Rightarrow> string \<Rightarrow> (HistoryAgent \<times> 'w sys, string) py" where
  "get_historical_info host place_or_event =
     (let prompt = historical_info_prompt place_or_event
      in py_try
           (py_bind
              (on_llm (chat_completion host [[''role'' \<mapsto> ''user'', ''content'' \<mapsto> prompt]] None))
              (\<lambda>response.
               py_bind (py_lift (first_item (choices response))) (\<lambda>c.
               py_return (content (message c)))))
           (\<lambda>e. py_return
                  (''I encountered an issue researching '' @ place_or_event @
                   ''. Let me share what I know from my training data instead.'')))"

definition explore_time_period :: "'w host \<Rightarrow> string \<Rightarrow> (HistoryAgent \<times> 'w sys, string) py" where
  "explore_time_period host time_period =
     (let prompt = time_period_prompt time_period
      in py_try
           (py_bind
              (on_llm (chat_completion host [[''role'' \<mapsto> ''user'', ''content'' \<mapsto> prompt]] None))
              (\<lambda>response.
               py_bind (py_lift (first_item (choices response))) (\<lambda>c.
               py_return (content (message c)))))
           (\<lambda>e. py_return
                  (''I had trouble exploring that time period in detail. Let me share what I know about '' @
                   time_period @ '' from my knowledge.'')))"

text \<open>The two greetings of \<^verbatim>\<open>on_enter\<close>.\<close>

abbreviation context_greeting :: "string \<Rightarrow> string" where
  "context_greeting c \<equiv>
     ''Hello! I'm your history guide. I have some context about '' @ c @
     ''. What would you like to explore about history today?''"

abbreviation generic_greeting :: string where
  "generic_greeting \<equiv>
     ''Hello! I'm your personal history expert. I love sharing fascinating stories about historical places, events, and cultures. What historical topic interests you?''"

definition on_enter :: "'w host \<Rightarrow> (HistoryAgent \<times> 'w sys, unit) py" where
  "on_enter host =
     (\<lambda>(self, s).
        if agent_context self \<noteq> []
        then on_sys
               (call (Say (context_greeting (agent_context self)) True)
                  (session_say host (context_greeting (agent_context self)) True))
               (self, s)
        else on_sys
               (call (Say generic_greeting True) (session_say host generic_greeting True))
               (self, s))"

section \<open>Sessions of several calls, and scripted collaborators\<close>

text \<open>Successive \<^verbatim>\<open>chat_completion\<close> calls on one adapter instance, with their replies.\<close>

fun chat_completions ::
  "'w host \<Rightarrow> (message list \<times> tool list option) list \<Rightarrow> GeminiLLM \<times> 'w sys \<Rightarrow>
     (pyexc + completion) list \<times> GeminiLLM \<times> 'w sys" where
  "chat_completions host [] st = ([], st)"
| "chat_completions host ((messages, tools) # rest) st =
     (case chat_completion host messages tools st of
        (r, st') \<Rightarrow> (case chat_completions host rest st' of (rs, st'') \<Rightarrow> (r # rs, st'')))"

definition is_start_chat :: "event \<Rightarrow> bool" where
  "is_start_chat ev = (case ev of StartChat _ \<Rightarrow> True | _ \<Rightarrow> False)"


text \<open>
  Collaborators with scripted, constant behaviour, over a world without state: the
  environment, and the outcomes of creating a chat, of sending a message, and of the two
  HTTP requests.  Everything else returns.
\<close>

definition scripted_host ::
  "(string \<Rightarrow> string option) \<Rightarrow> (pyexc + chat_session) \<Rightarrow> (pyexc + response) \<Rightarrow>
   (pyexc + json http_response) \<Rightarrow> (pyexc + bytes http_response) \<Rightarrow> unit host" where
  "scripted_host env started sent transcribed synthesized =
     \<lparr>os_getenv = env,
      genai_configure = (\<lambda>api_key. py_return ()),
      genai_GenerativeModel = (\<lambda>model_name. py_return (GenerativeModelObj 0)),
      model_start_chat = (\<lambda>m. py_lift started),
      chat_send_message = (\<lambda>h prompt. py_lift sent),
      session_post_form = (\<lambda>url headers data. py_lift transcribed),
      session_post_json = (\<lambda>url headers payload. py_lift synthesized),
      silero_VAD_load = py_return (VadObj 0),
      Agent_init = (\<lambda>options. py_return ()),
      session_say = (\<lambda>txt allow_interruptions. py_return ())\<rparr>"

definition all_keys :: "string \<Rightarrow> string option" where
  "all_keys = [''GEMINI_API_KEY'' \<mapsto> ''g-key'', ''GLADIA_API_KEY'' \<mapsto> ''s-key'',
               ''MINIMAX_API_KEY'' \<mapsto> ''t-key'']"

definition sys0 :: "unit sys" where
  "sys0 = \<lparr>world = (), trace = []\<rparr>"

definition llm0 :: GeminiLLM where
  "llm0 = \<lparr>model = GenerativeModelObj 0, chat = None\<rparr>"

definition unreachable :: pyexc where
  "unreachable = PyExc ''ClientConnectorError'' ''Cannot connect to host''"

definition boom :: pyexc where
  "boom = PyExc ''RuntimeError'' ''boom''"

text \<open>The cancellation of the running task, raised at an \<^verbatim>\<open>await\<close>.\<close>

definition cancelled :: pyexc where
  "cancelled = PyBaseExc ''CancelledError'' []"

definition llm_host :: "(pyexc + chat_session) \<Rightarrow> (pyexc + response) \<Rightarrow> unit host" where
  "llm_host started sent = scripted_host all_keys started sent (Inl unreachable) (Inl unreachable)"

definition stt_host :: "(pyexc + json http_response) \<Rightarrow> unit host" where
  "stt_host transcribed =
     scripted_host all_keys (Inl unreachable) (Inl unreachable) transcribed (Inl unreachable)"

definition tts_host :: "(pyexc + bytes http_response) \<Rightarrow> unit host" where
  "tts_host synthesized =
     scripted_host all_keys (Inl unreachable) (Inl unreachable) (Inl unreachable) synthesized"

definition env_host :: "(string \<Rightarrow> string option) \<Rightarrow> unit host" where
  "env_host env =
     scripted_host env (Inl unreachable) (Inl unreachable) (Inl unreachable) (Inl unreachable)"

definition user_says :: "string \<Rightarrow> message" where
  "user_says c = [''role'' \<mapsto> ''user'', ''content'' \<mapsto> c]"

abbreviation assistant_reply :: "string \<Rightarrow> completion" where
  "assistant_reply c \<equiv> \<lparr>choices = [\<lparr>message = \<lparr>content = c, role = ''assistant''\<rparr>\<rparr>]\<rparr>"

definition tool_says :: "string \<Rightarrow> message" where
  "tool_says c = [''role'' \<mapsto> ''tool'', ''content'' \<mapsto> c]"

definition agent0 :: HistoryAgent where
  "agent0 = \<lparr>gemini_llm = llm0, gladia_stt = GladiaSTT_init ''s-key'',
             minimax_tts = MinimaxTTS_init ''t-key'', agent_context = []\<rparr>"

definition empty_gemini_key :: "string \<Rightarrow> string option" where
  "empty_gemini_key = [''GEMINI_API_KEY'' \<mapsto> [], ''GLADIA_API_KEY'' \<mapsto> ''s-key'',
                       ''MINIMAX_API_KEY'' \<mapsto> ''t-key'']"

text \<open>
  The field the transcription adapter expects in a decoded response:
  \<^verbatim>\<open>result["transcription"]["full_transcript"]\<close>, when both dictionaries and both keys
  are there.
\<close>

definition full_transcript_of :: "json \<Rightarrow> json option" where
  "full_transcript_of result =
     (case result of
        JObj kvs \<Rightarrow>
          (case map_of kvs ''transcription'' of
             Some (JObj kvs') \<Rightarrow> map_of kvs' ''full_transcript''
           | _ \<Rightarrow> None)
      | _ \<Rightarrow> None)"

section \<open>Unfolding the effects\<close>

lemmas py_defs = py_return_def py_raise_def py_bind_def py_try_def py_lift_def on_sys_def call_def

lemmas host_defs = llm_host_def stt_host_def tts_host_def env_host_def scripted_host_def
  sys0_def llm0_def boom_def unreachable_def cancelled_def user_says_def

lemma py_bind_Inr: "m s = (Inr x, s') \<Longrightarrow> py_bind m f s = f x s'"
  by (simp add: py_bind_def)

lemma py_bind_return: "fst (m s) = Inr u \<Longrightarrow> fst (py_bind m (\<lambda>_. py_return y) s) = Inr y"
  by (cases "m s") (auto simp: py_bind_def py_return_def)

lemma chat_completion_result:
  "(\<exists>c. fst (chat_completion host messages tools st) = Inr (assistant_reply c))
   \<or> (\<exists>e. fst (chat_completion host messages tools st) = Inl e \<and> \<not> is_exception e)"
  by (cases st) (auto simp: chat_completion_def py_defs split: prod.splits sum.splits)

lemma chat_completion_raises_from_library:
  assumes "fst (chat_completion host messages tools (self, s)) = Inl e"
  shows "(\<exists>m w. fst (model_start_chat host m w) = Inl e)
         \<or> (\<exists>h p w. fst (chat_send_message host h p w) = Inl e)
         \<or> (\<exists>h p w r. fst (chat_send_message host h p w) = Inr r \<and> response_text r = Inl e)"
proof -
  show ?thesis
  proof (cases "chat self")
    case None
    obtain r w1 where st: "model_start_chat host (model self) (world s) = (r, w1)"
      by (cases "model_start_chat host (model self) (world s)")
    show ?thesis
    proof (cases r)
      case (Inl e')
      with None st assms have "e' = e"
        by (auto simp: chat_completion_def init_chat_def py_defs split: if_splits)
      with Inl st have "fst (model_start_chat host (model self) (world s)) = Inl e" by simp
      then show ?thesis by blast
    next
      case (Inr h)
      obtain r2 w2 where sm: "chat_send_message host h (convert_messages messages) w1 = (r2, w2)"
        by (cases "chat_send_message host h (convert_messages messages) w1")
      show ?thesis
      proof (cases r2)
        case (Inl e')
        with None st Inr sm assms have "e' = e"
          by (auto simp: chat_completion_def init_chat_def send_prompt_def py_defs split: if_splits)
        with Inl sm have "fst (chat_send_message host h (convert_messages messages) w1) = Inl e" by simp
        then show ?thesis by blast
      next
        case r: (Inr resp)
        with None st Inr sm assms have "response_text resp = Inl e"
          by (auto simp: chat_completion_def init_chat_def send_prompt_def py_defs
                split: if_splits sum.splits)
        with r sm have "fst (chat_send_message host h (convert_messages messages) w1) = Inr resp
            \<and> response_text resp = Inl e" by simp
        then show ?thesis by blast
      qed
    qed
  next
    case (Some h)
    obtain r2 w2 where sm: "chat_send_message host h (convert_messages messages) (world s) = (r2, w2)"
      by (cases "chat_send_message host h (convert_messages messages) (world s)")
    show ?thesis
    proof (cases r2)
      case (Inl e')
      with Some sm assms have "e' = e"
        by (auto simp: chat_completion_def init_chat_def send_prompt_def py_defs split: if_splits)
      with Inl sm have "fst (chat_send_message host h (convert_messages messages) (world s)) = Inl e" by simp
      then show ?thesis by blast
    next
      case r: (Inr resp)
      with Some sm assms have "response_text resp = Inl e"
        by (auto simp: chat_completion_def init_chat_def send_prompt_def py_defs
              split: if_splits sum.splits)
      with r sm have "fst (chat_send_message host h (convert_messages messages) (world s)) = Inr resp
          \<and> response_text resp = Inl e" by simp
      then show ?thesis by blast
    qed
  qed
qed

section \<open>Flattening the message history\<close>

lemma capitalize_system: "capitalize ''system'' = ''System''" by code_simp
lemma capitalize_user: "capitalize ''user'' = ''User''" by code_simp
lemma capitalize_assistant: "capitalize ''assistant'' = ''Assistant''" by code_simp

lemma convert_loop_acc: "convert_loop msgs acc = acc @ convert_loop msgs []"
proof (induction msgs arbitrary: acc)
  case Nil show ?case by simp
next
  case (Cons m ms)
  have step: "convert_loop ms (acc @ l) = acc @ convert_loop ms l" for l
    using Cons.IH[of "acc @ l"] Cons.IH[of l] by simp
  show ?case
    using step[of "[]"] by (simp add: Let_def step)
qed

lemma convert_loop_single:
  "convert_loop [m] [] = (if known_role m then [rendered_line m] else [])"
  by (simp add: Let_def known_role_def rendered_line_def message_role_def message_content_def
        capitalize_system capitalize_user capitalize_assistant del: capitalize.simps)

lemma convert_loop_Cons:
  "convert_loop (m # ms) [] = convert_loop [m] [] @ convert_loop ms []"
proof -
  have "convert_loop (m # ms) [] = convert_loop ms (convert_loop [m] [])"
    by (simp add: Let_def)
  also have "\<dots> = convert_loop [m] [] @ convert_loop ms []"
    by (rule convert_loop_acc)
  finally show ?thesis .
qed

lemma convert_loop_filter:
  "convert_loop msgs [] = map rendered_line (filter known_role msgs)"
proof (induction msgs)
  case Nil show ?case by simp
next
  case (Cons m ms)
  show ?case
    unfolding convert_loop_Cons[of m ms] convert_loop_single Cons.IH by simp
qed

lemma convert_loop_append:
  "convert_loop (xs @ ys) [] = convert_loop xs [] @ convert_loop ys []"
  by (simp add: convert_loop_filter)

lemma known_role_label:
  "known_role m \<Longrightarrow> capitalize (message_role m) \<in> {''System'', ''User'', ''Assistant''}"
  by (auto simp: known_role_def capitalize_system capitalize_user capitalize_assistant
           simp del: capitalize.simps)

text \<open>
  Claim C5 as stated (every message sequence yields exactly one rendered line per
  message) fails for a message whose role is none of the three: a message with the role
  \<open>tool\<close> of the OpenAI format is one input message and yields no part at all, so the
  prompt is not the join of the rendered lines.
\<close>

theorem convert_messages_counterexample:
  "convert_loop [tool_says ''42''] [] = []
   \<and> length (convert_loop [tool_says ''42''] []) \<noteq> length [tool_says ''42'']
   \<and> rendered_line (tool_says ''42'') = ''Tool: 42''
   \<and> convert_messages [tool_says ''42''] \<noteq> str_join ''\<newline>'' (map rendered_line [tool_says ''42''])"
  by (simp add: convert_messages_def tool_says_def dict_get_def rendered_line_def message_role_def
        message_content_def upper_char_def, code_simp)

text \<open>
  Claim C5, as amended.  For every message sequence in which the role of each message
  (\<open>user\<close> when the key is missing) is one of \<open>system\<close>, \<open>user\<close> and \<open>assistant\<close>,
  \<open>convert_messages\<close> returns the parts joined by newlines, the parts are the rendered
  lines \<open><Role>: <content>\<close> of the messages in the order of the input, there is
  exactly one part per message, and every label is one of \<open>System\<close>, \<open>User\<close> and
  \<open>Assistant\<close>.
\<close>

theorem convert_messages_known_roles:
  assumes "\<forall>m \<in> set messages. known_role m"
  shows "convert_messages messages = str_join ''\<newline>'' (map rendered_line messages)
         \<and> convert_loop messages [] = map rendered_line messages
         \<and> length (convert_loop messages []) = length messages
         \<and> (\<forall>m \<in> set messages. capitalize (message_role m) \<in> {''System'', ''User'', ''Assistant''})"
proof -
  from assms have "filter known_role messages = messages" by simp
  then have "convert_loop messages [] = map rendered_line messages"
    by (simp add: convert_loop_filter)
  moreover have "\<forall>m \<in> set messages. capitalize (message_role m) \<in> {''System'', ''User'', ''Assistant''}"
    using assms known_role_label by blast
  ultimately show ?thesis
    by (simp only: convert_messages_def length_map simp_thms)
qed

theorem convert_messages_known_roles_witness:
  "convert_messages [[''role'' \<mapsto> ''system'', ''content'' \<mapsto> ''Be brief.''], user_says ''Who built Rome?'',
                     [''role'' \<mapsto> ''assistant'', ''content'' \<mapsto> ''Romulus.'']]
     = ''System: Be brief.\<newline>User: Who built Rome?\<newline>Assistant: Romulus.''"
proof -
  let ?ms = "[[''role'' \<mapsto> ''system'', ''content'' \<mapsto> ''Be brief.''], user_says ''Who built Rome?'',
                     [''role'' \<mapsto> ''assistant'', ''content'' \<mapsto> ''Romulus.'']]"
  have "\<forall>m \<in> set ?ms. known_role m"
    by (simp add: known_role_def message_role_def dict_get_def user_says_def)
  from convert_messages_known_roles[OF this]
  have "convert_messages ?ms = str_join ''\<newline>'' (map rendered_line ?ms)" by blast
  also have "\<dots> = ''System: Be brief.\<newline>User: Who built Rome?\<newline>Assistant: Romulus.''"
    by (simp add: rendered_line_def message_role_def message_content_def dict_get_def user_says_def
          capitalize_system capitalize_user capitalize_assistant del: capitalize.simps)
  finally show ?thesis .
qed

text \<open>
  Claim C10.  Anywhere in a message sequence, a message whose role is present and is none
  of \<open>system\<close>, \<open>user\<close> and \<open>assistant\<close> contributes no part (the prompt is that of
  the sequence without it); a message without a role key is rendered with the label
  \<open>User:\<close>; and a message without a content key is rendered with empty content.
\<close>

theorem convert_messages_edge_cases:
  "(m ''role'' = Some r \<and> r \<notin> {''system'', ''user'', ''assistant''} \<longrightarrow>
      convert_loop (xs @ m # ys) [] = convert_loop (xs @ ys) []
      \<and> convert_messages (xs @ m # ys) = convert_messages (xs @ ys))
   \<and> (m ''role'' = None \<longrightarrow>
      convert_loop (xs @ m # ys) [] =
        convert_loop xs [] @ [''User: '' @ dict_get m ''content'' []] @ convert_loop ys [])
   \<and> (m ''content'' = None \<and> known_role m \<longrightarrow>
      convert_loop (xs @ m # ys) [] =
        convert_loop xs [] @ [capitalize (message_role m) @ '': ''] @ convert_loop ys [])"
proof (intro conjI impI)
  assume a: "m ''role'' = Some r \<and> r \<notin> {''system'', ''user'', ''assistant''}"
  then have "\<not> known_role m" by (simp add: known_role_def message_role_def dict_get_def)
  then show l: "convert_loop (xs @ m # ys) [] = convert_loop (xs @ ys) []"
    by (simp add: convert_loop_filter)
  show "convert_messages (xs @ m # ys) = convert_messages (xs @ ys)"
    by (simp only: convert_messages_def l)
next
  assume "m ''role'' = None"
  then have "known_role m" and "rendered_line m = ''User: '' @ dict_get m ''content'' []"
    by (simp_all add: known_role_def message_role_def message_content_def rendered_line_def
          dict_get_def capitalize_user del: capitalize.simps)
  then show "convert_loop (xs @ m # ys) [] =
        convert_loop xs [] @ [''User: '' @ dict_get m ''content'' []] @ convert_loop ys []"
    by (simp add: convert_loop_filter)
next
  assume "m ''content'' = None \<and> known_role m"
  then have "known_role m" and "rendered_line m = capitalize (message_role m) @ '': ''"
    by (simp_all add: message_content_def rendered_line_def dict_get_def del: capitalize.simps)
  then show "convert_loop (xs @ m # ys) [] =
        convert_loop xs [] @ [capitalize (message_role m) @ '': ''] @ convert_loop ys []"
    by (simp add: convert_loop_filter del: capitalize.simps)
qed

theorem convert_messages_edge_cases_witness:
  "convert_messages [user_says ''a'', tool_says ''42'', user_says ''b''] = ''User: a\<newline>User: b''
   \<and> convert_messages [user_says ''a'', [''content'' \<mapsto> ''no role''], user_says ''b'']
       = ''User: a\<newline>User: no role\<newline>User: b''
   \<and> convert_messages [user_says ''a'', [''role'' \<mapsto> ''assistant''], user_says ''b'']
       = ''User: a\<newline>Assistant: \<newline>User: b''"
proof -
  have u: "convert_loop [user_says c] [] = [''User: '' @ c]" for c
    by (simp add: user_says_def dict_get_def)
  have "tool_says ''42'' ''role'' = Some ''tool'' \<and> ''tool'' \<notin> {''system'', ''user'', ''assistant''}"
    by (simp add: tool_says_def)
  from convert_messages_edge_cases[where m = "tool_says ''42''" and r = "''tool''"
      and xs = "[user_says ''a'']" and ys = "[user_says ''b'']", THEN conjunct1, rule_format, OF this]
  have a: "convert_messages [user_says ''a'', tool_says ''42'', user_says ''b''] = ''User: a\<newline>User: b''"
    by (simp add: convert_messages_def user_says_def dict_get_def)
  have "[''content'' \<mapsto> ''no role''] ''role'' = None" by simp
  from convert_messages_edge_cases[where m = "[''content'' \<mapsto> ''no role'']"
      and xs = "[user_says ''a'']" and ys = "[user_says ''b'']", THEN conjunct2, THEN conjunct1, rule_format, OF this]
  have b: "convert_messages [user_says ''a'', [''content'' \<mapsto> ''no role''], user_says ''b'']
       = ''User: a\<newline>User: no role\<newline>User: b''"
    by (simp add: convert_messages_def u dict_get_def del: convert_loop.simps)
  have "[''role'' \<mapsto> ''assistant''] ''content'' = None \<and> known_role [''role'' \<mapsto> ''assistant'']"
    by (simp add: known_role_def message_role_def dict_get_def)
  from convert_messages_edge_cases[where m = "[''role'' \<mapsto> ''assistant'']"
      and xs = "[user_says ''a'']" and ys = "[user_says ''b'']", THEN conjunct2, THEN conjunct2, rule_format, OF this]
  have c: "convert_messages [user_says ''a'', [''role'' \<mapsto> ''assistant''], user_says ''b'']
       = ''User: a\<newline>Assistant: \<newline>User: b''"
    by (simp add: convert_messages_def u message_role_def dict_get_def capitalize_assistant
          del: convert_loop.simps capitalize.simps)
  from a b c show ?thesis by simp
qed

section \<open>The conversation adapter and what it catches\<close>

text \<open>
  Claim C1 as stated (for every behaviour of the underlying call, raising included,
  \<open>chat_completion\<close> never raises) fails for what is raised outside \<^verbatim>\<open>Exception\<close>:
  the handler is \<^verbatim>\<open>except Exception\<close>, so the cancellation of the task while the
  send is awaited leaves \<open>chat_completion\<close> as \<^verbatim>\<open>CancelledError\<close>.
\<close>

theorem chat_completion_cancelled_counterexample:
  "fst (chat_completion (llm_host (Inr (ChatSessionObj 7)) (Inl cancelled)) [user_says ''hi''] None
          (llm0, sys0)) = Inl cancelled
   \<and> exc_class cancelled = ''CancelledError''"
  by (simp add: chat_completion_def init_chat_def send_prompt_def host_defs py_defs)

text \<open>
  Claim C1, as amended.  For every message sequence, every tools argument, every state of
  the adapter and every behaviour of the model library: what \<open>chat_completion\<close> returns
  is a reply with the role \<open>assistant\<close>, and what it raises is no instance of
  \<^verbatim>\<open>Exception\<close>.  When the library raises only instances of \<^verbatim>\<open>Exception\<close>,
  \<open>chat_completion\<close> never raises.  When creating the chat session, sending the prompt
  or reading the response's text raises an instance of \<^verbatim>\<open>Exception\<close>, the reply's
  content is the apology followed by the text of that exception; when the text is read,
  the reply's content is that text.  When one of the three raises something that is no
  instance of \<^verbatim>\<open>Exception\<close>, \<open>chat_completion\<close> raises it.
\<close>

theorem chat_completion_catches_exceptions:
  "(case fst (chat_completion host messages tools (self, s)) of
      Inl e \<Rightarrow> \<not> is_exception e
    | Inr c \<Rightarrow> \<exists>t. c = assistant_reply t)
   \<and> ((\<forall>m w e. fst (model_start_chat host m w) = Inl e \<longrightarrow> is_exception e)
        \<and> (\<forall>h p w e. fst (chat_send_message host h p w) = Inl e \<longrightarrow> is_exception e)
        \<and> (\<forall>h p w r e. fst (chat_send_message host h p w) = Inr r \<and> response_text r = Inl e
               \<longrightarrow> is_exception e) \<longrightarrow>
        (\<exists>c. fst (chat_completion host messages tools (self, s)) = Inr (assistant_reply c)))
   \<and> (chat self = None \<and> fst (model_start_chat host (model self) (world s)) = Inl e
        \<and> is_exception e \<longrightarrow>
        fst (chat_completion host messages tools (self, s)) =
          Inr (assistant_reply (''I apologize, but I encountered an error: '' @ exc_str e)))
   \<and> (init_chat host (self, s) = (Inr (), (self1, s1)) \<and> chat self1 = Some h \<and>
        fst (chat_send_message host h (convert_messages messages) (world s1)) = Inl e
        \<and> is_exception e \<longrightarrow>
        fst (chat_completion host messages tools (self, s)) =
          Inr (assistant_reply (''I apologize, but I encountered an error: '' @ exc_str e)))
   \<and> (init_chat host (self, s) = (Inr (), (self1, s1)) \<and> chat self1 = Some h \<and>
        fst (chat_send_message host h (convert_messages messages) (world s1)) = Inr resp \<and>
        response_text resp = Inl e \<and> is_exception e \<longrightarrow>
        fst (chat_completion host messages tools (self, s)) =
          Inr (assistant_reply (''I apologize, but I encountered an error: '' @ exc_str e)))
   \<and> (init_chat host (self, s) = (Inr (), (self1, s1)) \<and> chat self1 = Some h \<and>
        fst (chat_send_message host h (convert_messages messages) (world s1)) = Inr resp \<and>
        response_text resp = Inr t \<longrightarrow>
        fst (chat_completion host messages tools (self, s)) = Inr (assistant_reply t))
   \<and> (chat self = None \<and> fst (model_start_chat host (model self) (world s)) = Inl e
        \<and> \<not> is_exception e \<longrightarrow>
        fst (chat_completion host messages tools (self, s)) = Inl e)
   \<and> (init_chat host (self, s) = (Inr (), (self1, s1)) \<and> chat self1 = Some h \<and>
        fst (chat_send_message host h (convert_messages messages) (world s1)) = Inl e
        \<and> \<not> is_exception e \<longrightarrow>
        fst (chat_completion host messages tools (self, s)) = Inl e)
   \<and> (init_chat host (self, s) = (Inr (), (self1, s1)) \<and> chat self1 = Some h \<and>
        fst (chat_send_message host h (convert_messages messages) (world s1)) = Inr resp \<and>
        response_text resp = Inl e \<and> \<not> is_exception e \<longrightarrow>
        fst (chat_completion host messages tools (self, s)) = Inl e)"
proof (intro conjI impI)
  show "case fst (chat_completion host messages tools (self, s)) of
      Inl e \<Rightarrow> \<not> is_exception e
    | Inr c \<Rightarrow> \<exists>t. c = assistant_reply t"
    using chat_completion_result[of host messages tools "(self, s)"]
    by (auto split: sum.splits)
next
  assume lib: "(\<forall>m w e. fst (model_start_chat host m w) = Inl e \<longrightarrow> is_exception e)
        \<and> (\<forall>h p w e. fst (chat_send_message host h p w) = Inl e \<longrightarrow> is_exception e)
        \<and> (\<forall>h p w r e. fst (chat_send_message host h p w) = Inr r \<and> response_text r = Inl e
               \<longrightarrow> is_exception e)"
  have "\<not> (fst (chat_completion host messages tools (self, s)) = Inl e \<and> \<not> is_exception e)" for e
    using chat_completion_raises_from_library[of host messages tools self s e] lib by blast
  with chat_completion_result[of host messages tools "(self, s)"]
  show "\<exists>c. fst (chat_completion host messages tools (self, s)) = Inr (assistant_reply c)"
    by blast
next
  assume "chat self = None \<and> fst (model_start_chat host (model self) (world s)) = Inl e
        \<and> is_exception e"
  then show "fst (chat_completion host messages tools (self, s)) =
          Inr (assistant_reply (''I apologize, but I encountered an error: '' @ exc_str e))"
    by (auto simp: chat_completion_def init_chat_def py_defs split: prod.splits sum.splits)
next
  assume "init_chat host (self, s) = (Inr (), (self1, s1)) \<and> chat self1 = Some h \<and>
        fst (chat_send_message host h (convert_messages messages) (world s1)) = Inl e
        \<and> is_exception e"
  then show "fst (chat_completion host messages tools (self, s)) =
          Inr (assistant_reply (''I apologize, but I encountered an error: '' @ exc_str e))"
    by (auto simp: chat_completion_def send_prompt_def py_defs split: prod.splits sum.splits)
next
  assume "init_chat host (self, s) = (Inr (), (self1, s1)) \<and> chat self1 = Some h \<and>
        fst (chat_send_message host h (convert_messages messages) (world s1)) = Inr resp \<and>
        response_text resp = Inl e \<and> is_exception e"
  then show "fst (chat_completion host messages tools (self, s)) =
          Inr (assistant_reply (''I apologize, but I encountered an error: '' @ exc_str e))"
    by (auto simp: chat_completion_def send_prompt_def py_defs split: prod.splits sum.splits)
next
  assume "init_chat host (self, s) = (Inr (), (self1, s1)) \<and> chat self1 = Some h \<and>
        fst (chat_send_message host h (convert_messages messages) (world s1)) = Inr resp \<and>
        response_text resp = Inr t"
  then show "fst (chat_completion host messages tools (self, s)) = Inr (assistant_reply t)"
    by (auto simp: chat_completion_def send_prompt_def py_defs split: prod.splits sum.splits)
next
  assume "chat self = None \<and> fst (model_start_chat host (model self) (world s)) = Inl e
        \<and> \<not> is_exception e"
  then show "fst (chat_completion host messages tools (self, s)) = Inl e"
    by (auto simp: chat_completion_def init_chat_def py_defs split: prod.splits sum.splits)
next
  assume "init_chat host (self, s) = (Inr (), (self1, s1)) \<and> chat self1 = Some h \<and>
        fst (chat_send_message host h (convert_messages messages) (world s1)) = Inl e
        \<and> \<not> is_exception e"
  then show "fst (chat_completion host messages tools (self, s)) = Inl e"
    by (auto simp: chat_completion_def send_prompt_def py_defs split: prod.splits sum.splits)
next
  assume "init_chat host (self, s) = (Inr (), (self1, s1)) \<and> chat self1 = Some h \<and>
        fst (chat_send_message host h (convert_messages messages) (world s1)) = Inr resp \<and>
        response_text resp = Inl e \<and> \<not> is_exception e"
  then show "fst (chat_completion host messages tools (self, s)) = Inl e"
    by (auto simp: chat_completion_def send_prompt_def py_defs split: prod.splits sum.splits)
qed

theorem chat_completion_catches_exceptions_witness:
  "fst (chat_completion (llm_host (Inr (ChatSessionObj 7)) (Inl boom)) [user_says ''hi''] None (llm0, sys0))
     = Inr (assistant_reply ''I apologize, but I encountered an error: boom'')
   \<and> fst (chat_completion (llm_host (Inl boom) (Inl unreachable)) [user_says ''hi''] None (llm0, sys0))
     = Inr (assistant_reply ''I apologize, but I encountered an error: boom'')
   \<and> fst (chat_completion (llm_host (Inr (ChatSessionObj 7)) (Inr (Response (Inl boom))))
            [user_says ''hi''] None (llm0, sys0))
     = Inr (assistant_reply ''I apologize, but I encountered an error: boom'')
   \<and> fst (chat_completion (llm_host (Inr (ChatSessionObj 7)) (Inr (Response (Inr ''Rome fell in 476.''))))
            [user_says ''hi''] None (llm0, sys0))
     = Inr (assistant_reply ''Rome fell in 476.'')
   \<and> (\<exists>c. fst (chat_completion (llm_host (Inl boom) (Inl unreachable)) [user_says ''hi'', user_says ''you'']
                 (Some []) (llm0\<lparr>chat := Some (ChatSessionObj 3)\<rparr>, sys0)) = Inr (assistant_reply c))
   \<and> fst (chat_completion (llm_host (Inl cancelled) (Inl unreachable)) [user_says ''hi''] None (llm0, sys0))
     = Inl cancelled
   \<and> fst (chat_completion (llm_host (Inr (ChatSessionObj 7)) (Inl cancelled)) [user_says ''hi''] None
            (llm0, sys0)) = Inl cancelled
   \<and> fst (chat_completion (llm_host (Inr (ChatSessionObj 7)) (Inr (Response (Inl cancelled))))
            [user_says ''hi''] None (llm0, sys0)) = Inl cancelled"
proof -
  let ?s1 = "\<lparr>world = (), trace = [StartChat (GenerativeModelObj 0)]\<rparr>"
  let ?l1 = "llm0\<lparr>chat := Some (ChatSessionObj 7)\<rparr>"
  note t = chat_completion_catches_exceptions[THEN conjunct2]
  have i: "init_chat (llm_host (Inr (ChatSessionObj 7)) sent) (llm0, sys0) = (Inr (), (?l1, ?s1))" for sent
    by (simp add: init_chat_def host_defs py_defs)
  have c: "chat ?l1 = Some (ChatSessionObj 7)" by simp
  have n: "chat llm0 = None" by (simp add: llm0_def)
  have sm: "fst (chat_send_message (llm_host st r) h p w) = r" for st r h p w
    by (simp add: host_defs py_defs)
  have sc: "fst (model_start_chat (llm_host r st) m w) = r" for st r m w
    by (simp add: host_defs py_defs)
  have xb: "is_exception boom" "exc_str boom = ''boom''" and xc: "\<not> is_exception cancelled"
    by (simp_all add: boom_def cancelled_def)
  have a: "fst (chat_completion (llm_host (Inr (ChatSessionObj 7)) (Inl boom)) [user_says ''hi''] None (llm0, sys0))
     = Inr (assistant_reply (''I apologize, but I encountered an error: '' @ exc_str boom))"
    by (rule chat_completion_catches_exceptions[where ?self1.0 = ?l1 and ?s1.0 = ?s1
          and h = "ChatSessionObj 7", THEN conjunct2, THEN conjunct2, THEN conjunct2, THEN conjunct1,
          rule_format]) (simp add: i sm xb)
  have b: "fst (chat_completion (llm_host (Inl boom) (Inl unreachable)) [user_says ''hi''] None (llm0, sys0))
     = Inr (assistant_reply (''I apologize, but I encountered an error: '' @ exc_str boom))"
    by (rule chat_completion_catches_exceptions[THEN conjunct2, THEN conjunct2, THEN conjunct1,
          rule_format]) (simp add: n sc xb)
  have d: "fst (chat_completion (llm_host (Inr (ChatSessionObj 7)) (Inr (Response (Inl boom))))
            [user_says ''hi''] None (llm0, sys0))
     = Inr (assistant_reply (''I apologize, but I encountered an error: '' @ exc_str boom))"
    by (rule chat_completion_catches_exceptions[where ?self1.0 = ?l1 and ?s1.0 = ?s1
          and h = "ChatSessionObj 7" and resp = "Response (Inl boom)",
          THEN conjunct2, THEN conjunct2, THEN conjunct2, THEN conjunct2, THEN conjunct1, rule_format])
       (simp add: i sm xb)
  have f: "fst (chat_completion (llm_host (Inr (ChatSessionObj 7)) (Inr (Response (Inr ''Rome fell in 476.''))))
            [user_says ''hi''] None (llm0, sys0))
     = Inr (assistant_reply ''Rome fell in 476.'')"
    by (rule chat_completion_catches_exceptions[where ?self1.0 = ?l1 and ?s1.0 = ?s1
          and h = "ChatSessionObj 7" and resp = "Response (Inr ''Rome fell in 476.'')",
          THEN conjunct2, THEN conjunct2, THEN conjunct2, THEN conjunct2, THEN conjunct2, THEN conjunct1,
          rule_format])
       (simp add: i sm)
  have g: "\<exists>c. fst (chat_completion (llm_host (Inl boom) (Inl unreachable)) [user_says ''hi'', user_says ''you'']
                 (Some []) (llm0\<lparr>chat := Some (ChatSessionObj 3)\<rparr>, sys0)) = Inr (assistant_reply c)"
    by (rule chat_completion_catches_exceptions[THEN conjunct2, THEN conjunct1, rule_format])
       (simp add: host_defs py_defs)
  have k: "fst (chat_completion (llm_host (Inl cancelled) (Inl unreachable)) [user_says ''hi''] None (llm0, sys0))
     = Inl cancelled"
    by (rule chat_completion_catches_exceptions[THEN conjunct2, THEN conjunct2, THEN conjunct2,
          THEN conjunct2, THEN conjunct2, THEN conjunct2, THEN conjunct1, rule_format])
       (simp add: n sc xc)
  have l: "fst (chat_completion (llm_host (Inr (ChatSessionObj 7)) (Inl cancelled)) [user_says ''hi''] None
            (llm0, sys0)) = Inl cancelled"
    by (rule chat_completion_catches_exceptions[where ?self1.0 = ?l1 and ?s1.0 = ?s1
          and h = "ChatSessionObj 7", THEN conjunct2, THEN conjunct2, THEN conjunct2,
          THEN conjunct2, THEN conjunct2, THEN conjunct2, THEN conjunct2, THEN conjunct1, rule_format])
       (simp add: i sm xc)
  have m: "fst (chat_completion (llm_host (Inr (ChatSessionObj 7)) (Inr (Response (Inl cancelled))))
            [user_says ''hi''] None (llm0, sys0)) = Inl cancelled"
    by (rule chat_completion_catches_exceptions[where ?self1.0 = ?l1 and ?s1.0 = ?s1
          and h = "ChatSessionObj 7" and resp = "Response (Inl cancelled)",
          THEN conjunct2, THEN conjunct2, THEN conjunct2,
          THEN conjunct2, THEN conjunct2, THEN conjunct2, THEN conjunct2, THEN conjunct2, rule_format])
       (simp add: i sm xc)
  from a b d f g k l m show ?thesis by (simp add: xb)
qed

section \<open>The tools argument\<close>

text \<open>
  Claim C9.  For every message sequence and every two values of the tools argument
  (\<open>None\<close> included), \<open>chat_completion\<close> is the same function of the state: the same
  reply, the same adapter state and the same trace of calls to the model library, hence
  the same prompt sent.  The same holds for the agent's \<open>custom_llm\<close>, which passes its
  tools argument on to \<open>chat_completion\<close>.
\<close>

theorem tools_never_forwarded:
  "chat_completion host messages tools1 = chat_completion host messages tools2
   \<and> custom_llm host messages tools1 = custom_llm host messages tools2"
  by (simp add: chat_completion_def custom_llm_def)

theorem tools_never_forwarded_witness:
  "chat_completion (llm_host (Inr (ChatSessionObj 7)) (Inr (Response (Inr ''ok''))))
     [user_says ''hi''] (Some [Tool ''get_historical_info'' ''Get detailed historical information'']) (llm0, sys0)
   = (Inr (assistant_reply ''ok''),
      (llm0\<lparr>chat := Some (ChatSessionObj 7)\<rparr>,
       \<lparr>world = (), trace = [StartChat (GenerativeModelObj 0),
                              SendMessage (ChatSessionObj 7) ''User: hi'']\<rparr>))"
proof -
  let ?H = "llm_host (Inr (ChatSessionObj 7)) (Inr (Response (Inr ''ok'')))"
  have "chat_completion ?H [user_says ''hi''] None (llm0, sys0)
   = (Inr (assistant_reply ''ok''),
      (llm0\<lparr>chat := Some (ChatSessionObj 7)\<rparr>,
       \<lparr>world = (), trace = [StartChat (GenerativeModelObj 0),
                              SendMessage (ChatSessionObj 7) ''User: hi'']\<rparr>))"
    by (simp add: chat_completion_def init_chat_def send_prompt_def host_defs py_defs
          convert_messages_def dict_get_def)
  then show ?thesis
    by (simp only: tools_never_forwarded[THEN conjunct1,
          of ?H "[user_says ''hi'']" "Some [Tool ''get_historical_info'' ''Get detailed historical information'']" None])
qed

section \<open>The lazily created chat handle\<close>

lemma chat_completion_with_handle:
  assumes "chat self = Some h"
  shows "snd (chat_completion host messages tools (self, s)) =
           (self, \<lparr>world = snd (chat_send_message host h (convert_messages messages) (world s)),
                   trace = trace s @ [SendMessage h (convert_messages messages)]\<rparr>)"
  using assms
  by (auto simp: chat_completion_def init_chat_def send_prompt_def py_defs
           split: prod.splits sum.splits)

lemma chat_completion_first:
  assumes "chat self = None" and "model_start_chat host (model self) (world s) = (Inr h, w1)"
  shows "snd (chat_completion host messages tools (self, s)) =
           (self\<lparr>chat := Some h\<rparr>,
            \<lparr>world = snd (chat_send_message host h (convert_messages messages) w1),
             trace = trace s @ [StartChat (model self), SendMessage h (convert_messages messages)]\<rparr>)"
  using assms
  by (auto simp: chat_completion_def init_chat_def send_prompt_def py_defs
           split: prod.splits sum.splits)

lemma chat_completion_frame:
  "\<exists>c. fst (snd (chat_completion host messages tools (self, s))) = self\<lparr>chat := c\<rparr>"
proof (cases "chat self")
  case None
  show ?thesis
  proof (cases "model_start_chat host (model self) (world s)")
    case (Pair r w1)
    show ?thesis
    proof (cases r)
      case (Inl e)
      with None Pair have "fst (snd (chat_completion host messages tools (self, s))) = self"
        by (auto simp: chat_completion_def init_chat_def send_prompt_def py_defs
              split: prod.splits sum.splits)
      then have "fst (snd (chat_completion host messages tools (self, s))) = self\<lparr>chat := chat self\<rparr>"
        by simp
      then show ?thesis by blast
    next
      case (Inr h)
      with None Pair chat_completion_first[of self host s h w1 messages tools]
      have "fst (snd (chat_completion host messages tools (self, s))) = self\<lparr>chat := Some h\<rparr>"
        by simp
      then show ?thesis by blast
    qed
  qed
next
  case (Some h)
  from chat_completion_with_handle[OF this, of host messages tools s]
  have "fst (snd (chat_completion host messages tools (self, s))) = self\<lparr>chat := chat self\<rparr>"
    by simp
  then show ?thesis by blast
qed

lemma chat_completions_with_handle:
  "chat self = Some h \<Longrightarrow>
   \<exists>w'. snd (chat_completions host calls (self, s)) =
      (self, \<lparr>world = w', trace = trace s @ map (\<lambda>(m, t). SendMessage h (convert_messages m)) calls\<rparr>)"
proof (induction calls arbitrary: s)
  case Nil
  show ?case by (rule exI[of _ "world s"]) simp
next
  case (Cons c calls)
  obtain m t where c: "c = (m, t)" by (cases c)
  let ?s1 = "\<lparr>world = snd (chat_send_message host h (convert_messages m) (world s)),
               trace = trace s @ [SendMessage h (convert_messages m)]\<rparr>"
  obtain r where one: "chat_completion host m t (self, s) = (r, (self, ?s1))"
    using chat_completion_with_handle[OF Cons.prems, of host m t s]
    by (cases "chat_completion host m t (self, s)") simp
  from Cons.IH[OF Cons.prems, of ?s1] obtain w' where
    rest: "snd (chat_completions host calls (self, ?s1)) =
      (self, \<lparr>world = w', trace = trace ?s1 @ map (\<lambda>(m, t). SendMessage h (convert_messages m)) calls\<rparr>)"
    by blast
  show ?case
    using one rest c by (auto split: prod.splits)
qed

lemma no_start_chat_in_sends:
  "filter is_start_chat (map (\<lambda>(m, t). SendMessage h (convert_messages m)) calls) = []"
  by (induction calls) (auto simp: is_start_chat_def)

lemma on_llm_frame:
  assumes "\<And>st. \<exists>c. fst (snd (m st)) = (fst st)\<lparr>chat := c\<rparr>"
  shows "\<exists>c. fst (snd (on_llm m (self, s))) = self\<lparr>gemini_llm := (gemini_llm self)\<lparr>chat := c\<rparr>\<rparr>"
proof -
  obtain r l s' where m: "m (gemini_llm self, s) = (r, (l, s'))"
    by (metis prod.collapse)
  with assms[of "(gemini_llm self, s)"] obtain c where "l = (gemini_llm self)\<lparr>chat := c\<rparr>"
    by auto
  with m show ?thesis by (auto simp: on_llm_def)
qed

lemma tool_frame:
  fixes host :: "'w host"
  shows "\<exists>c. fst (snd (py_try
                  (py_bind (on_llm (chat_completion host ms None)) (\<lambda>response.
                   py_bind (py_lift (first_item (choices response))) (\<lambda>c.
                   py_return (content (message c)))))
                  (\<lambda>e. py_return (apology e)) (self, s)))
            = self\<lparr>gemini_llm := (gemini_llm self)\<lparr>chat := c\<rparr>\<rparr>"
proof -
  have "\<exists>c. fst (snd (chat_completion host ms None st)) = (fst st)\<lparr>chat := c\<rparr>" for st
    using chat_completion_frame[of host ms None "fst st" "snd st"] by simp
  from on_llm_frame[of "chat_completion host ms None", OF this]
  obtain c where c: "fst (snd (on_llm (chat_completion host ms None) (self, s)))
      = self\<lparr>gemini_llm := (gemini_llm self)\<lparr>chat := c\<rparr>\<rparr>"
    by blast
  have "fst (snd (py_try
                  (py_bind (on_llm (chat_completion host ms None)) (\<lambda>response.
                   py_bind (py_lift (first_item (choices response))) (\<lambda>c.
                   py_return (content (message c)))))
                  (\<lambda>e. py_return (apology e)) (self, s)))
        = fst (snd (on_llm (chat_completion host ms None) (self, s)))"
    by (cases "on_llm (chat_completion host ms None) (self, s)")
       (auto simp: py_defs split: prod.splits sum.splits)
  with c show ?thesis by metis
qed

lemma agent_frame:
  fixes host :: "'w host"
  shows "fst (snd (custom_stt host audio_data (self, s))) = self"
    and "fst (snd (custom_tts host utterance (self, s))) = self"
    and "fst (snd (on_enter host (self, s))) = self"
    and "\<exists>c. fst (snd (custom_llm host messages tools (self, s)))
            = self\<lparr>gemini_llm := (gemini_llm self)\<lparr>chat := c\<rparr>\<rparr>"
    and "\<exists>c. fst (snd (get_historical_info host topic (self, s)))
            = self\<lparr>gemini_llm := (gemini_llm self)\<lparr>chat := c\<rparr>\<rparr>"
    and "\<exists>c. fst (snd (explore_time_period host period (self, s)))
            = self\<lparr>gemini_llm := (gemini_llm self)\<lparr>chat := c\<rparr>\<rparr>"
proof -
  show "fst (snd (custom_stt host audio_data (self, s))) = self"
    by (simp add: custom_stt_def on_sys_def split: prod.splits)
  show "fst (snd (custom_tts host utterance (self, s))) = self"
    by (simp add: custom_tts_def on_sys_def split: prod.splits)
  show "fst (snd (on_enter host (self, s))) = self"
    by (simp add: on_enter_def on_sys_def split: prod.splits)
  have "\<exists>c. fst (snd (chat_completion host messages tools st)) = (fst st)\<lparr>chat := c\<rparr>" for st
    using chat_completion_frame[of host messages tools "fst st" "snd st"] by simp
  from on_llm_frame[of "chat_completion host messages tools", OF this]
  show "\<exists>c. fst (snd (custom_llm host messages tools (self, s)))
            = self\<lparr>gemini_llm := (gemini_llm self)\<lparr>chat := c\<rparr>\<rparr>"
    by (simp add: custom_llm_def)
  show "\<exists>c. fst (snd (get_historical_info host topic (self, s)))
            = self\<lparr>gemini_llm := (gemini_llm self)\<lparr>chat := c\<rparr>\<rparr>"
    unfolding get_historical_info_def Let_def by (rule tool_frame)
  show "\<exists>c. fst (snd (explore_time_period host period (self, s)))
            = self\<lparr>gemini_llm := (gemini_llm self)\<lparr>chat := c\<rparr>\<rparr>"
    unfolding explore_time_period_def Let_def by (rule tool_frame)
qed

lemma chat_completion_creation_raises:
  assumes "chat self = None" and "fst (model_start_chat host (model self) (world s)) = Inl e"
  shows "snd (chat_completion host messages tools (self, s)) =
           (self, \<lparr>world = snd (model_start_chat host (model self) (world s)),
                   trace = trace s @ [StartChat (model self)]\<rparr>)"
  using assms
  by (cases "model_start_chat host (model self) (world s)")
     (auto simp: chat_completion_def init_chat_def py_defs split: prod.splits sum.splits)

lemma chat_completions_creation_raises:
  assumes "chat self = None" and "\<forall>w. \<exists>e. fst (model_start_chat host (model self) w) = Inl e"
  shows "\<exists>w'. snd (chat_completions host calls (self, s)) =
      (self, \<lparr>world = w', trace = trace s @ replicate (length calls) (StartChat (model self))\<rparr>)"
proof (induction calls arbitrary: s)
  case Nil
  show ?case by (rule exI[of _ "world s"]) simp
next
  case (Cons c calls)
  obtain m t where c: "c = (m, t)" by (cases c)
  from assms(2) obtain e where e: "fst (model_start_chat host (model self) (world s)) = Inl e"
    by blast
  let ?s1 = "\<lparr>world = snd (model_start_chat host (model self) (world s)),
               trace = trace s @ [StartChat (model self)]\<rparr>"
  obtain r where one: "chat_completion host m t (self, s) = (r, (self, ?s1))"
    using chat_completion_creation_raises[OF assms(1) e, of m t]
    by (cases "chat_completion host m t (self, s)") simp
  from Cons.IH[of ?s1] obtain w' where
    rest: "snd (chat_completions host calls (self, ?s1)) =
      (self, \<lparr>world = w', trace = trace ?s1 @ replicate (length calls) (StartChat (model self))\<rparr>)"
    by blast
  show ?case
    using one rest c by (auto split: prod.splits simp: replicate_app_Cons_same)
qed

lemma start_chats_counted:
  "length (filter is_start_chat (replicate n (StartChat m))) = n"
  by (induction n) (simp_all add: is_start_chat_def)

text \<open>
  Claim C6 as stated (the handle is created on the first call, and across N calls the
  creation runs exactly once) fails when the creation raises: the handle stays \<open>None\<close>
  and every call runs the creation again.  Two calls against a library whose
  \<open>start_chat\<close> raises run it twice.
\<close>

theorem chat_handle_counterexample:
  "chat (fst (snd (chat_completions (llm_host (Inl boom) (Inl unreachable))
                     [([user_says ''a''], None), ([user_says ''b''], None)] (llm0, sys0)))) = None
   \<and> trace (snd (snd (chat_completions (llm_host (Inl boom) (Inl unreachable))
                     [([user_says ''a''], None), ([user_says ''b''], None)] (llm0, sys0)))) =
       [StartChat (GenerativeModelObj 0), StartChat (GenerativeModelObj 0)]
   \<and> length (filter is_start_chat (trace (snd (snd (chat_completions (llm_host (Inl boom) (Inl unreachable))
                     [([user_says ''a''], None), ([user_says ''b''], None)] (llm0, sys0)))))) = 2"
proof -
  have one: "chat_completion (llm_host (Inl boom) (Inl unreachable)) ms None (llm0, \<lparr>world = (), trace = tr\<rparr>)
      = (Inr (assistant_reply (''I apologize, but I encountered an error: '' @ exc_str boom)),
         (llm0, \<lparr>world = (), trace = tr @ [StartChat (GenerativeModelObj 0)]\<rparr>))" for ms tr
    by (simp add: chat_completion_def init_chat_def host_defs py_defs)
  have "snd (chat_completions (llm_host (Inl boom) (Inl unreachable))
                     [([user_says ''a''], None), ([user_says ''b''], None)] (llm0, sys0))
       = (llm0, \<lparr>world = (), trace = [StartChat (GenerativeModelObj 0), StartChat (GenerativeModelObj 0)]\<rparr>)"
    by (simp add: one sys0_def)
  then show ?thesis by (simp add: llm0_def is_start_chat_def)
qed

text \<open>
  Claim C6, as amended.  The chat field is \<open>None\<close> in every adapter that the constructor
  returns.  Across a non-empty series of calls on an adapter without a handle, if the
  creation of the chat session returns a handle \<open>h\<close> on the first call, then the
  adapter ends with that handle, the trace gains exactly one creation (the first event)
  followed by one send per call, each on \<open>h\<close>, and the number of creations in the trace
  grows by one.  Calls on an adapter that holds a handle create nothing and leave the
  adapter as it is.  A call changes no field of the adapter other than the chat field,
  and no method of the agent changes anything of the agent but that field of its
  conversation adapter: the speech adapters and \<open>on_enter\<close> leave the agent as it is.
  While the creation raises, the handle stays \<open>None\<close> and each call runs the creation
  again: a call in which the creation raises leaves the adapter as it is and adds the one
  creation to the trace, and across any series of calls against a library whose creation
  raises in every world, the adapter stays as it is and the trace gains one creation per
  call and nothing else.
\<close>

theorem chat_handle_created_once:
  fixes host :: "'w host"
  shows
  "(GeminiLLM_init host api_key model_name s0 = (Inr llm, s1) \<longrightarrow> chat llm = None)
   \<and> (calls \<noteq> [] \<and> chat self = None \<and>
        fst (model_start_chat host (model self) (world s)) = Inr h \<longrightarrow>
        fst (snd (chat_completions host calls (self, s))) = self\<lparr>chat := Some h\<rparr>
        \<and> trace (snd (snd (chat_completions host calls (self, s)))) =
            trace s @ StartChat (model self) # map (\<lambda>(m, t). SendMessage h (convert_messages m)) calls
        \<and> length (filter is_start_chat (trace (snd (snd (chat_completions host calls (self, s)))))) =
            length (filter is_start_chat (trace s)) + 1)
   \<and> (chat self = Some h \<longrightarrow>
        fst (snd (chat_completions host calls (self, s))) = self
        \<and> trace (snd (snd (chat_completions host calls (self, s)))) =
            trace s @ map (\<lambda>(m, t). SendMessage h (convert_messages m)) calls)
   \<and> (\<exists>c. fst (snd (chat_completion host messages tools (self, s))) = self\<lparr>chat := c\<rparr>)
   \<and> fst (snd (custom_stt host audio_data (agent, s))) = agent
   \<and> fst (snd (custom_tts host utterance (agent, s))) = agent
   \<and> fst (snd (on_enter host (agent, s))) = agent
   \<and> (\<exists>c. fst (snd (custom_llm host messages tools (agent, s)))
            = agent\<lparr>gemini_llm := (gemini_llm agent)\<lparr>chat := c\<rparr>\<rparr>)
   \<and> (\<exists>c. fst (snd (get_historical_info host topic (agent, s)))
            = agent\<lparr>gemini_llm := (gemini_llm agent)\<lparr>chat := c\<rparr>\<rparr>)
   \<and> (\<exists>c. fst (snd (explore_time_period host period (agent, s)))
            = agent\<lparr>gemini_llm := (gemini_llm agent)\<lparr>chat := c\<rparr>\<rparr>)
   \<and> (chat self = None \<and> fst (model_start_chat host (model self) (world s)) = Inl e \<longrightarrow>
        fst (snd (chat_completion host messages tools (self, s))) = self
        \<and> trace (snd (snd (chat_completion host messages tools (self, s)))) =
            trace s @ [StartChat (model self)])
   \<and> (chat self = None \<and> (\<forall>w. \<exists>e. fst (model_start_chat host (model self) w) = Inl e) \<longrightarrow>
        fst (snd (chat_completions host calls (self, s))) = self
        \<and> trace (snd (snd (chat_completions host calls (self, s)))) =
            trace s @ replicate (length calls) (StartChat (model self))
        \<and> length (filter is_start_chat (trace (snd (snd (chat_completions host calls (self, s)))))) =
            length (filter is_start_chat (trace s)) + length calls)"
proof (intro conjI impI)
  assume "GeminiLLM_init host api_key model_name s0 = (Inr llm, s1)"
  then show "chat llm = None"
    by (auto simp: GeminiLLM_init_def py_defs split: prod.splits sum.splits)
next
  assume a: "calls \<noteq> [] \<and> chat self = None \<and>
        fst (model_start_chat host (model self) (world s)) = Inr h"
  then obtain c rest where calls: "calls = c # rest" by (cases calls) auto
  obtain m t where c: "c = (m, t)" by (cases c)
  from a obtain w1 where st: "model_start_chat host (model self) (world s) = (Inr h, w1)"
    by (cases "model_start_chat host (model self) (world s)") auto
  let ?self1 = "self\<lparr>chat := Some h\<rparr>"
  let ?s1 = "\<lparr>world = snd (chat_send_message host h (convert_messages m) w1),
              trace = trace s @ [StartChat (model self), SendMessage h (convert_messages m)]\<rparr>"
  from a st obtain r where one: "chat_completion host m t (self, s) = (r, (?self1, ?s1))"
    using chat_completion_first[of self host s h w1 m t]
    by (cases "chat_completion host m t (self, s)") simp
  have "chat ?self1 = Some h" by simp
  from chat_completions_with_handle[OF this, of host rest ?s1] obtain w' where
    rest: "snd (chat_completions host rest (?self1, ?s1)) =
      (?self1, \<lparr>world = w', trace = trace ?s1 @ map (\<lambda>(m, t). SendMessage h (convert_messages m)) rest\<rparr>)"
    by blast
  have all: "snd (chat_completions host calls (self, s)) =
      (?self1, \<lparr>world = w', trace = trace s @ StartChat (model self) #
                  map (\<lambda>(m, t). SendMessage h (convert_messages m)) calls\<rparr>)"
    using one rest calls c by (auto split: prod.splits)
  show "fst (snd (chat_completions host calls (self, s))) = self\<lparr>chat := Some h\<rparr>"
    by (simp add: all)
  show "trace (snd (snd (chat_completions host calls (self, s)))) =
            trace s @ StartChat (model self) # map (\<lambda>(m, t). SendMessage h (convert_messages m)) calls"
    by (simp add: all)
  show "length (filter is_start_chat (trace (snd (snd (chat_completions host calls (self, s)))))) =
            length (filter is_start_chat (trace s)) + 1"
    by (simp add: all no_start_chat_in_sends) (simp add: is_start_chat_def)
next
  assume h: "chat self = Some h"
  from chat_completions_with_handle[OF this, of host calls s] obtain w' where
    all: "snd (chat_completions host calls (self, s)) =
      (self, \<lparr>world = w', trace = trace s @ map (\<lambda>(m, t). SendMessage h (convert_messages m)) calls\<rparr>)"
    by blast
  show "fst (snd (chat_completions host calls (self, s))) = self" by (simp add: all)
  show "trace (snd (snd (chat_completions host calls (self, s)))) =
            trace s @ map (\<lambda>(m, t). SendMessage h (convert_messages m)) calls"
    by (simp add: all)
next
  show "\<exists>c. fst (snd (chat_completion host messages tools (self, s))) = self\<lparr>chat := c\<rparr>"
    by (rule chat_completion_frame)
  show "fst (snd (custom_stt host audio_data (agent, s))) = agent"
    and "fst (snd (custom_tts host utterance (agent, s))) = agent"
    and "fst (snd (on_enter host (agent, s))) = agent"
    and "\<exists>c. fst (snd (custom_llm host messages tools (agent, s)))
            = agent\<lparr>gemini_llm := (gemini_llm agent)\<lparr>chat := c\<rparr>\<rparr>"
    and "\<exists>c. fst (snd (get_historical_info host topic (agent, s)))
            = agent\<lparr>gemini_llm := (gemini_llm agent)\<lparr>chat := c\<rparr>\<rparr>"
    and "\<exists>c. fst (snd (explore_time_period host period (agent, s)))
            = agent\<lparr>gemini_llm := (gemini_llm agent)\<lparr>chat := c\<rparr>\<rparr>"
    by (rule agent_frame)+
next
  assume a: "chat self = None \<and> fst (model_start_chat host (model self) (world s)) = Inl e"
  then have one: "snd (chat_completion host messages tools (self, s)) =
           (self, \<lparr>world = snd (model_start_chat host (model self) (world s)),
                   trace = trace s @ [StartChat (model self)]\<rparr>)"
    using chat_completion_creation_raises[of self host s e messages tools] by blast
  show "fst (snd (chat_completion host messages tools (self, s))) = self"
    by (simp add: one)
  show "trace (snd (snd (chat_completion host messages tools (self, s)))) =
            trace s @ [StartChat (model self)]"
    by (simp add: one)
next
  assume a: "chat self = None \<and> (\<forall>w. \<exists>e. fst (model_start_chat host (model self) w) = Inl e)"
  then obtain w' where all: "snd (chat_completions host calls (self, s)) =
      (self, \<lparr>world = w', trace = trace s @ replicate (length calls) (StartChat (model self))\<rparr>)"
    using chat_completions_creation_raises[of self host calls s] by blast
  show "fst (snd (chat_completions host calls (self, s))) = self" by (simp add: all)
  show "trace (snd (snd (chat_completions host calls (self, s)))) =
            trace s @ replicate (length calls) (StartChat (model self))"
    by (simp add: all)
  show "length (filter is_start_chat (trace (snd (snd (chat_completions host calls (self, s)))))) =
            length (filter is_start_chat (trace s)) + length calls"
    by (simp add: all start_chats_counted)
qed

theorem chat_handle_created_once_witness:
  "(\<exists>s1. GeminiLLM_init (llm_host (Inr (ChatSessionObj 7)) (Inr (Response (Inr ''ok''))))
             ''g-key'' ''gemini-1.5-pro'' sys0 = (Inr llm0, s1))
   \<and> chat llm0 = None
   \<and> fst (snd (chat_completions (llm_host (Inr (ChatSessionObj 7)) (Inr (Response (Inr ''ok''))))
               [([user_says ''a''], None), ([user_says ''b''], None), ([user_says ''c''], None)]
               (llm0, sys0))) = llm0\<lparr>chat := Some (ChatSessionObj 7)\<rparr>
   \<and> trace (snd (snd (chat_completions (llm_host (Inr (ChatSessionObj 7)) (Inr (Response (Inr ''ok''))))
               [([user_says ''a''], None), ([user_says ''b''], None), ([user_says ''c''], None)]
               (llm0, sys0)))) =
       [StartChat (GenerativeModelObj 0), SendMessage (ChatSessionObj 7) ''User: a'',
        SendMessage (ChatSessionObj 7) ''User: b'', SendMessage (ChatSessionObj 7) ''User: c'']
   \<and> length (filter is_start_chat (trace (snd (snd (chat_completions
               (llm_host (Inr (ChatSessionObj 7)) (Inr (Response (Inr ''ok''))))
               [([user_says ''a''], None), ([user_says ''b''], None), ([user_says ''c''], None)]
               (llm0, sys0)))))) = 1
   \<and> trace (snd (snd (chat_completions (llm_host (Inl boom) (Inr (Response (Inr ''ok''))))
               [([user_says ''d''], None), ([user_says ''e''], None)]
               (llm0\<lparr>chat := Some (ChatSessionObj 7)\<rparr>, sys0)))) =
       [SendMessage (ChatSessionObj 7) ''User: d'', SendMessage (ChatSessionObj 7) ''User: e'']
   \<and> fst (snd (chat_completion (llm_host (Inl boom) (Inl unreachable)) [user_says ''f''] None
                  (llm0, sys0))) = llm0
   \<and> trace (snd (snd (chat_completion (llm_host (Inl boom) (Inl unreachable)) [user_says ''f''] None
                  (llm0, sys0)))) = [StartChat (GenerativeModelObj 0)]
   \<and> fst (snd (chat_completions (llm_host (Inl cancelled) (Inl unreachable))
               [([user_says ''g''], None), ([user_says ''h''], None), ([user_says ''i''], None)]
               (llm0, sys0))) = llm0
   \<and> trace (snd (snd (chat_completions (llm_host (Inl cancelled) (Inl unreachable))
               [([user_says ''g''], None), ([user_says ''h''], None), ([user_says ''i''], None)]
               (llm0, sys0)))) =
       [StartChat (GenerativeModelObj 0), StartChat (GenerativeModelObj 0), StartChat (GenerativeModelObj 0)]"
proof -
  let ?H = "llm_host (Inr (ChatSessionObj 7)) (Inr (Response (Inr ''ok'')))"
  let ?calls = "[([user_says ''a''], None), ([user_says ''b''], None), ([user_says ''c''], None)]"
  note t = chat_handle_created_once[where s = sys0 and h = "ChatSessionObj 7"]
  have i: "GeminiLLM_init ?H ''g-key'' ''gemini-1.5-pro'' sys0 =
      (Inr llm0, \<lparr>world = (), trace = [Configure ''g-key'', NewGenerativeModel ''gemini-1.5-pro'']\<rparr>)"
    by (simp add: GeminiLLM_init_def host_defs py_defs)
  from t[where host = ?H, THEN conjunct1, rule_format, OF i]
  have n: "chat llm0 = None" .
  have pre: "?calls \<noteq> [] \<and> chat llm0 = None \<and>
        fst (model_start_chat ?H (model llm0) (world sys0)) = Inr (ChatSessionObj 7)"
    by (simp add: host_defs py_defs)
  have u: "convert_messages [user_says c] = ''User: '' @ c" for c
    by (simp add: convert_messages_def user_says_def dict_get_def)
  from t[where host = ?H and calls = ?calls and self = llm0,
      THEN conjunct2, THEN conjunct1, rule_format, OF pre]
  have a: "fst (snd (chat_completions ?H ?calls (llm0, sys0))) = llm0\<lparr>chat := Some (ChatSessionObj 7)\<rparr>
    \<and> trace (snd (snd (chat_completions ?H ?calls (llm0, sys0)))) =
       [StartChat (GenerativeModelObj 0), SendMessage (ChatSessionObj 7) ''User: a'',
        SendMessage (ChatSessionObj 7) ''User: b'', SendMessage (ChatSessionObj 7) ''User: c'']
    \<and> length (filter is_start_chat (trace (snd (snd (chat_completions ?H ?calls (llm0, sys0)))))) = 1"
    by (simp add: u sys0_def llm0_def is_start_chat_def del: chat_completions.simps)
  have "chat (llm0\<lparr>chat := Some (ChatSessionObj 7)\<rparr>) = Some (ChatSessionObj 7)" by simp
  from t[where host = "llm_host (Inl boom) (Inr (Response (Inr ''ok'')))"
      and calls = "[([user_says ''d''], None), ([user_says ''e''], None)]"
      and self = "llm0\<lparr>chat := Some (ChatSessionObj 7)\<rparr>",
      THEN conjunct2, THEN conjunct2, THEN conjunct1, rule_format, OF this]
  have b: "trace (snd (snd (chat_completions (llm_host (Inl boom) (Inr (Response (Inr ''ok''))))
               [([user_says ''d''], None), ([user_says ''e''], None)]
               (llm0\<lparr>chat := Some (ChatSessionObj 7)\<rparr>, sys0)))) =
       [SendMessage (ChatSessionObj 7) ''User: d'', SendMessage (ChatSessionObj 7) ''User: e'']"
    by (simp add: u sys0_def del: chat_completions.simps)
  have r1: "chat llm0 = None \<and>
      fst (model_start_chat (llm_host (Inl boom) (Inl unreachable)) (model llm0) (world sys0)) = Inl boom"
    by (simp add: host_defs py_defs)
  from t[where host = "llm_host (Inl boom) (Inl unreachable)" and self = llm0 and e = boom
      and messages = "[user_says ''f'']" and tools = None,
      THEN conjunct2, THEN conjunct2, THEN conjunct2, THEN conjunct2, THEN conjunct2, THEN conjunct2,
      THEN conjunct2, THEN conjunct2, THEN conjunct2, THEN conjunct2, THEN conjunct1, rule_format, OF r1]
  have c: "fst (snd (chat_completion (llm_host (Inl boom) (Inl unreachable)) [user_says ''f''] None
                  (llm0, sys0))) = llm0
   \<and> trace (snd (snd (chat_completion (llm_host (Inl boom) (Inl unreachable)) [user_says ''f''] None
                  (llm0, sys0)))) = [StartChat (GenerativeModelObj 0)]"
    by (simp add: sys0_def llm0_def)
  have r2: "chat llm0 = None \<and>
      (\<forall>w. \<exists>e. fst (model_start_chat (llm_host (Inl cancelled) (Inl unreachable)) (model llm0) w) = Inl e)"
    by (simp add: host_defs py_defs)
  from t[where host = "llm_host (Inl cancelled) (Inl unreachable)" and self = llm0
      and calls = "[([user_says ''g''], None), ([user_says ''h''], None), ([user_says ''i''], None)]",
      THEN conjunct2, THEN conjunct2, THEN conjunct2, THEN conjunct2, THEN conjunct2, THEN conjunct2,
      THEN conjunct2, THEN conjunct2, THEN conjunct2, THEN conjunct2, THEN conjunct2, rule_format, OF r2]
  have d: "fst (snd (chat_completions (llm_host (Inl cancelled) (Inl unreachable))
               [([user_says ''g''], None), ([user_says ''h''], None), ([user_says ''i''], None)]
               (llm0, sys0))) = llm0
   \<and> trace (snd (snd (chat_completions (llm_host (Inl cancelled) (Inl unreachable))
               [([user_says ''g''], None), ([user_says ''h''], None), ([user_says ''i''], None)]
               (llm0, sys0)))) =
       [StartChat (GenerativeModelObj 0), StartChat (GenerativeModelObj 0), StartChat (GenerativeModelObj 0)]"
    by (simp add: sys0_def llm0_def numeral_3_eq_3 del: chat_completions.simps)
  from i n a b c d show ?thesis by blast
qed

section \<open>The transcription adapter\<close>

lemma json_get_chain:
  "(case json_get result ''transcription'' (JObj []) of
      Inl e \<Rightarrow> if is_exception e then Inr (JStr []) else Inl e
    | Inr t \<Rightarrow> (case json_get t ''full_transcript'' (JStr []) of
                   Inl e \<Rightarrow> if is_exception e then Inr (JStr []) else Inl e
                 | Inr v \<Rightarrow> Inr v))
   = (Inr (case full_transcript_of result of None \<Rightarrow> JStr [] | Some v \<Rightarrow> v) :: pyexc + json)"
  by (auto simp: json_get_def full_transcript_of_def attribute_error_def
           split: json.splits option.splits sum.splits)

lemma recognize_cases:
  "fst (recognize host self audio_data s) =
     (case fst (session_post_form host (stt_url self) (stt_headers self) (stt_data audio_data) (world s)) of
        Inl e \<Rightarrow> if is_exception e then Inr (JStr []) else Inl e
      | Inr response \<Rightarrow>
          if status response = 200
          then (case body response of
                  Inl e \<Rightarrow> if is_exception e then Inr (JStr []) else Inl e
                | Inr result \<Rightarrow>
                    Inr (case full_transcript_of result of None \<Rightarrow> JStr [] | Some v \<Rightarrow> v))
          else Inr (JStr []))"
  unfolding json_get_chain[symmetric]
  by (auto simp: recognize_def py_defs Let_def split: prod.splits sum.splits)

text \<open>
  Claim C2 as stated (for every audio input \<open>recognize\<close> never raises) fails for what
  is raised outside \<^verbatim>\<open>Exception\<close>: the handler is \<^verbatim>\<open>except Exception\<close>, so the
  cancellation of the task while the request is awaited leaves \<open>recognize\<close> as
  \<^verbatim>\<open>CancelledError\<close>.
\<close>

theorem recognize_cancelled_counterexample:
  "fst (recognize (stt_host (Inl cancelled)) (GladiaSTT_init ''s-key'') [0x52, 0x49, 0x46, 0x46] sys0)
     = Inl cancelled
   \<and> exc_class cancelled = ''CancelledError''"
  by (simp add: recognize_def host_defs py_defs)

text \<open>
  Claim C2, as amended.  For every audio input, every adapter and every behaviour of the
  transcription endpoint: what \<open>recognize\<close> raises is no instance of \<^verbatim>\<open>Exception\<close>,
  and when the request and the reading of the body raise only instances of
  \<^verbatim>\<open>Exception\<close>, \<open>recognize\<close> returns a value.  It returns the empty string when
  the transport fails with an instance of \<^verbatim>\<open>Exception\<close>, when the status is not 200,
  when decoding the body raises an instance of \<^verbatim>\<open>Exception\<close>, and when the decoded
  document lacks the field \<open>transcription.full_transcript\<close> (it is no dictionary, the key
  \<open>transcription\<close> is missing or holds no dictionary, or the key \<open>full_transcript\<close> is
  missing).  For a response with status 200 and the body
  \<open>{"transcription": {"full_transcript": "hello"}}\<close> it returns \<open>hello\<close>.  What the
  request or the reading of the body raises outside \<^verbatim>\<open>Exception\<close> is raised by
  \<open>recognize\<close>.
\<close>

theorem recognize_fail_soft:
  fixes host :: "'w host"
  shows
  "(\<forall>e. fst (recognize host self audio_data s) = Inl e \<longrightarrow> \<not> is_exception e)
   \<and> ((\<forall>e. fst (session_post_form host (stt_url self) (stt_headers self) (stt_data audio_data) (world s)) = Inl e
             \<longrightarrow> is_exception e)
        \<and> (\<forall>response e.
              fst (session_post_form host (stt_url self) (stt_headers self) (stt_data audio_data) (world s))
                = Inr response \<and> body response = Inl e \<longrightarrow> is_exception e) \<longrightarrow>
        (\<exists>v. fst (recognize host self audio_data s) = Inr v))
   \<and> (fst (session_post_form host (stt_url self) (stt_headers self) (stt_data audio_data) (world s)) = Inl e
        \<and> is_exception e \<longrightarrow>
        fst (recognize host self audio_data s) = Inr (JStr []))
   \<and> (fst (session_post_form host (stt_url self) (stt_headers self) (stt_data audio_data) (world s)) = Inr response
        \<and> status response \<noteq> 200 \<longrightarrow>
        fst (recognize host self audio_data s) = Inr (JStr []))
   \<and> (fst (session_post_form host (stt_url self) (stt_headers self) (stt_data audio_data) (world s)) = Inr response
        \<and> status response = 200 \<and> body response = Inl e \<and> is_exception e \<longrightarrow>
        fst (recognize host self audio_data s) = Inr (JStr []))
   \<and> (fst (session_post_form host (stt_url self) (stt_headers self) (stt_data audio_data) (world s)) = Inr response
        \<and> status response = 200 \<and> body response = Inr result \<and> full_transcript_of result = None \<longrightarrow>
        fst (recognize host self audio_data s) = Inr (JStr []))
   \<and> (fst (session_post_form host (stt_url self) (stt_headers self) (stt_data audio_data) (world s)) = Inr response
        \<and> status response = 200
        \<and> body response = Inr (JObj [(''transcription'', JObj [(''full_transcript'', JStr ''hello'')])]) \<longrightarrow>
        fst (recognize host self audio_data s) = Inr (JStr ''hello''))
   \<and> (fst (session_post_form host (stt_url self) (stt_headers self) (stt_data audio_data) (world s)) = Inl e
        \<and> \<not> is_exception e \<longrightarrow>
        fst (recognize host self audio_data s) = Inl e)
   \<and> (fst (session_post_form host (stt_url self) (stt_headers self) (stt_data audio_data) (world s)) = Inr response
        \<and> status response = 200 \<and> body response = Inl e \<and> \<not> is_exception e \<longrightarrow>
        fst (recognize host self audio_data s) = Inl e)"
proof -
  let ?post = "fst (session_post_form host (stt_url self) (stt_headers self) (stt_data audio_data) (world s))"
  have hello: "full_transcript_of (JObj [(''transcription'', JObj [(''full_transcript'', JStr ''hello'')])])
      = Some (JStr ''hello'')"
    by (simp add: full_transcript_of_def)
  have r: "fst (recognize host self audio_data s) =
     (case ?post of
        Inl e \<Rightarrow> if is_exception e then Inr (JStr []) else Inl e
      | Inr response \<Rightarrow>
          if status response = 200
          then (case body response of
                  Inl e \<Rightarrow> if is_exception e then Inr (JStr []) else Inl e
                | Inr result \<Rightarrow>
                    Inr (case full_transcript_of result of None \<Rightarrow> JStr [] | Some v \<Rightarrow> v))
          else Inr (JStr []))"
    by (rule recognize_cases)
  show ?thesis
  proof (cases ?post)
    case (Inl x)
    then show ?thesis unfolding r by (simp add: hello)
  next
    case (Inr resp)
    show ?thesis
    proof (cases "status resp = 200")
      case False
      with Inr show ?thesis unfolding r by (simp add: hello)
    next
      case True
      show ?thesis
      proof (cases "body resp")
        case (Inl x)
        with Inr True show ?thesis unfolding r by (simp add: hello)
      next
        case b: (Inr doc)
        with Inr True hello show ?thesis unfolding r by auto
      qed
    qed
  qed
qed

theorem recognize_fail_soft_witness:
  "fst (recognize (stt_host (Inl unreachable)) (GladiaSTT_init ''s-key'') [0x52, 0x49, 0x46, 0x46] sys0)
     = Inr (JStr [])
   \<and> fst (recognize (stt_host (Inr \<lparr>status = 503, body = Inr JNull\<rparr>)) (GladiaSTT_init ''s-key'')
            [0x52, 0x49, 0x46, 0x46] sys0) = Inr (JStr [])
   \<and> fst (recognize (stt_host (Inr \<lparr>status = 200, body = Inl (PyExc ''ContentTypeError'' ''not json'')\<rparr>))
            (GladiaSTT_init ''s-key'') [0x52, 0x49, 0x46, 0x46] sys0) = Inr (JStr [])
   \<and> fst (recognize (stt_host (Inr \<lparr>status = 200, body = Inr (JObj [(''transcription'', JNull)])\<rparr>))
            (GladiaSTT_init ''s-key'') [0x52, 0x49, 0x46, 0x46] sys0) = Inr (JStr [])
   \<and> fst (recognize (stt_host (Inr \<lparr>status = 200,
              body = Inr (JObj [(''transcription'', JObj [(''full_transcript'', JStr ''hello'')])])\<rparr>))
            (GladiaSTT_init ''s-key'') [0x52, 0x49, 0x46, 0x46] sys0) = Inr (JStr ''hello'')
   \<and> (\<exists>v. fst (recognize (stt_host (Inr \<lparr>status = 200, body = Inr (JArr [])\<rparr>))
                 (GladiaSTT_init ''s-key'') [] sys0) = Inr v)
   \<and> fst (recognize (stt_host (Inl cancelled)) (GladiaSTT_init ''s-key'') [0x52, 0x49, 0x46, 0x46] sys0)
       = Inl cancelled
   \<and> fst (recognize (stt_host (Inr \<lparr>status = 200, body = Inl cancelled\<rparr>)) (GladiaSTT_init ''s-key'')
            [0x52, 0x49, 0x46, 0x46] sys0) = Inl cancelled"
proof -
  have p: "fst (session_post_form (stt_host r) u h d w) = r" for r u h d w
    by (simp add: host_defs py_defs)
  have n: "full_transcript_of (JObj [(''transcription'', JNull)]) = None"
    by (simp add: full_transcript_of_def)
  have xu: "is_exception unreachable" and xc: "\<not> is_exception cancelled"
    by (simp_all add: unreachable_def cancelled_def)
  have a: "fst (recognize (stt_host (Inl unreachable)) (GladiaSTT_init ''s-key'') [0x52, 0x49, 0x46, 0x46] sys0)
     = Inr (JStr [])"
    by (rule recognize_fail_soft[where e = unreachable,
                 THEN conjunct2, THEN conjunct2, THEN conjunct1, rule_format]) (simp add: p xu)
  have b: "fst (recognize (stt_host (Inr \<lparr>status = 503, body = Inr JNull\<rparr>)) (GladiaSTT_init ''s-key'')
            [0x52, 0x49, 0x46, 0x46] sys0) = Inr (JStr [])"
    by (rule recognize_fail_soft[where response = "\<lparr>status = 503, body = Inr JNull\<rparr>",
                 THEN conjunct2, THEN conjunct2, THEN conjunct2, THEN conjunct1, rule_format]) (simp add: p)
  have c: "fst (recognize (stt_host (Inr \<lparr>status = 200, body = Inl (PyExc ''ContentTypeError'' ''not json'')\<rparr>))
            (GladiaSTT_init ''s-key'') [0x52, 0x49, 0x46, 0x46] sys0) = Inr (JStr [])"
    by (rule recognize_fail_soft[where response = "\<lparr>status = 200, body = Inl (PyExc ''ContentTypeError'' ''not json'')\<rparr>"
                 and e = "PyExc ''ContentTypeError'' ''not json''",
                 THEN conjunct2, THEN conjunct2, THEN conjunct2, THEN conjunct2, THEN conjunct1, rule_format])
       (simp add: p)
  have d: "fst (recognize (stt_host (Inr \<lparr>status = 200, body = Inr (JObj [(''transcription'', JNull)])\<rparr>))
            (GladiaSTT_init ''s-key'') [0x52, 0x49, 0x46, 0x46] sys0) = Inr (JStr [])"
    by (rule recognize_fail_soft[where response = "\<lparr>status = 200, body = Inr (JObj [(''transcription'', JNull)])\<rparr>"
                 and result = "JObj [(''transcription'', JNull)]",
                 THEN conjunct2, THEN conjunct2, THEN conjunct2, THEN conjunct2, THEN conjunct2,
                 THEN conjunct1, rule_format])
       (simp add: p n)
  have e: "fst (recognize (stt_host (Inr \<lparr>status = 200,
              body = Inr (JObj [(''transcription'', JObj [(''full_transcript'', JStr ''hello'')])])\<rparr>))
            (GladiaSTT_init ''s-key'') [0x52, 0x49, 0x46, 0x46] sys0) = Inr (JStr ''hello'')"
    by (rule recognize_fail_soft[where response = "\<lparr>status = 200,
                   body = Inr (JObj [(''transcription'', JObj [(''full_transcript'', JStr ''hello'')])])\<rparr>",
                 THEN conjunct2, THEN conjunct2, THEN conjunct2, THEN conjunct2, THEN conjunct2,
                 THEN conjunct2, THEN conjunct1, rule_format])
       (simp add: p)
  have f: "\<exists>v. fst (recognize (stt_host (Inr \<lparr>status = 200, body = Inr (JArr [])\<rparr>))
                 (GladiaSTT_init ''s-key'') [] sys0) = Inr v"
    by (rule recognize_fail_soft[THEN conjunct2, THEN conjunct1, rule_format]) (simp add: p)
  have g: "fst (recognize (stt_host (Inl cancelled)) (GladiaSTT_init ''s-key'') [0x52, 0x49, 0x46, 0x46] sys0)
       = Inl cancelled"
    by (rule recognize_fail_soft[where e = cancelled,
                 THEN conjunct2, THEN conjunct2, THEN conjunct2, THEN conjunct2,
                 THEN conjunct2, THEN conjunct2, THEN conjunct2, THEN conjunct1, rule_format])
       (simp add: p xc)
  have h: "fst (recognize (stt_host (Inr \<lparr>status = 200, body = Inl cancelled\<rparr>)) (GladiaSTT_init ''s-key'')
            [0x52, 0x49, 0x46, 0x46] sys0) = Inl cancelled"
    by (rule recognize_fail_soft[where response = "\<lparr>status = 200, body = Inl cancelled\<rparr>"
                 and e = cancelled,
                 THEN conjunct2, THEN conjunct2, THEN conjunct2, THEN conjunct2,
                 THEN conjunct2, THEN conjunct2, THEN conjunct2, THEN conjunct2, rule_format])
       (simp add: p xc)
  from a b c d e f g h show ?thesis by blast
qed

section \<open>The synthesis adapter\<close>

lemma synthesize_cases:
  "fst (synthesize host self utterance s) =
     (case fst (session_post_json host (tts_url self) (tts_headers self) (tts_payload utterance) (world s)) of
        Inl e \<Rightarrow> if is_exception e then Inr [] else Inl e
      | Inr response \<Rightarrow>
          if status response = 200
          then (case body response of
                  Inl e \<Rightarrow> if is_exception e then Inr [] else Inl e
                | Inr audio_data \<Rightarrow> Inr audio_data)
          else Inr [])"
  by (auto simp: synthesize_def py_defs Let_def split: prod.splits sum.splits)

text \<open>
  Claim C3 as stated (for every input text \<open>synthesize\<close> never raises) fails for what
  is raised outside \<^verbatim>\<open>Exception\<close>: the handler is \<^verbatim>\<open>except Exception\<close>, so the
  cancellation of the task while the request is awaited leaves \<open>synthesize\<close> as
  \<^verbatim>\<open>CancelledError\<close>.
\<close>

theorem synthesize_cancelled_counterexample:
  "fst (synthesize (tts_host (Inl cancelled)) (MinimaxTTS_init ''t-key'') ''Hello'' sys0) = Inl cancelled
   \<and> exc_class cancelled = ''CancelledError''"
  by (simp add: synthesize_def host_defs py_defs)

text \<open>
  Claim C3, as amended.  For every input text, every adapter and every behaviour of the
  synthesis endpoint: what \<open>synthesize\<close> raises is no instance of \<^verbatim>\<open>Exception\<close>,
  and when the request and the reading of the body raise only instances of
  \<^verbatim>\<open>Exception\<close>, \<open>synthesize\<close> returns a value.  It returns the empty byte
  sequence when the transport fails with an instance of \<^verbatim>\<open>Exception\<close> (before the
  response or while its body is read) and when the status is not 200; for a response with
  status 200 whose body is read, it returns exactly the bytes of the body.  What the
  request or the reading of the body raises outside \<^verbatim>\<open>Exception\<close> is raised by
  \<open>synthesize\<close>.
\<close>

theorem synthesize_fail_soft:
  fixes host :: "'w host"
  shows
  "(\<forall>e. fst (synthesize host self utterance s) = Inl e \<longrightarrow> \<not> is_exception e)
   \<and> ((\<forall>e. fst (session_post_json host (tts_url self) (tts_headers self) (tts_payload utterance) (world s)) = Inl e
             \<longrightarrow> is_exception e)
        \<and> (\<forall>response e.
              fst (session_post_json host (tts_url self) (tts_headers self) (tts_payload utterance) (world s))
                = Inr response \<and> body response = Inl e \<longrightarrow> is_exception e) \<longrightarrow>
        (\<exists>b. fst (synthesize host self utterance s) = Inr b))
   \<and> (fst (session_post_json host (tts_url self) (tts_headers self) (tts_payload utterance) (world s)) = Inl e
        \<and> is_exception e \<longrightarrow>
        fst (synthesize host self utterance s) = Inr [])
   \<and> (fst (session_post_json host (tts_url self) (tts_headers self) (tts_payload utterance) (world s)) = Inr response
        \<and> status response \<noteq> 200 \<longrightarrow>
        fst (synthesize host self utterance s) = Inr [])
   \<and> (fst (session_post_json host (tts_url self) (tts_headers self) (tts_payload utterance) (world s)) = Inr response
        \<and> status response = 200 \<and> body response = Inl e \<and> is_exception e \<longrightarrow>
        fst (synthesize host self utterance s) = Inr [])
   \<and> (fst (session_post_json host (tts_url self) (tts_headers self) (tts_payload utterance) (world s)) = Inr response
        \<and> status response = 200 \<and> body response = Inr audio_data \<longrightarrow>
        fst (synthesize host self utterance s) = Inr audio_data)
   \<and> (fst (session_post_json host (tts_url self) (tts_headers self) (tts_payload utterance) (world s)) = Inl e
        \<and> \<not> is_exception e \<longrightarrow>
        fst (synthesize host self utterance s) = Inl e)
   \<and> (fst (session_post_json host (tts_url self) (tts_headers self) (tts_payload utterance) (world s)) = Inr response
        \<and> status response = 200 \<and> body response = Inl e \<and> \<not> is_exception e \<longrightarrow>
        fst (synthesize host self utterance s) = Inl e)"
proof -
  let ?post = "fst (session_post_json host (tts_url self) (tts_headers self) (tts_payload utterance) (world s))"
  have r: "fst (synthesize host self utterance s) =
     (case ?post of
        Inl e \<Rightarrow> if is_exception e then Inr [] else Inl e
      | Inr response \<Rightarrow>
          if status response = 200
          then (case body response of
                  Inl e \<Rightarrow> if is_exception e then Inr [] else Inl e
                | Inr audio_data \<Rightarrow> Inr audio_data)
          else Inr [])"
    by (rule synthesize_cases)
  show ?thesis
  proof (cases ?post)
    case (Inl x)
    then show ?thesis unfolding r by simp
  next
    case (Inr resp)
    show ?thesis
    proof (cases "status resp = 200")
      case False
      with Inr show ?thesis unfolding r by simp
    next
      case True
      show ?thesis
      proof (cases "body resp")
        case (Inl x)
        with Inr True show ?thesis unfolding r by simp
      next
        case b: (Inr bytes)
        with Inr True show ?thesis unfolding r by simp
      qed
    qed
  qed
qed

theorem synthesize_fail_soft_witness:
  "fst (synthesize (tts_host (Inl unreachable)) (MinimaxTTS_init ''t-key'') ''Hello'' sys0) = Inr []
   \<and> fst (synthesize (tts_host (Inr \<lparr>status = 401, body = Inr [0x7B, 0x7D]\<rparr>)) (MinimaxTTS_init ''t-key'')
            ''Hello'' sys0) = Inr []
   \<and> fst (synthesize (tts_host (Inr \<lparr>status = 200, body = Inl (PyExc ''ClientPayloadError'' ''cut off'')\<rparr>))
            (MinimaxTTS_init ''t-key'') ''Hello'' sys0) = Inr []
   \<and> fst (synthesize (tts_host (Inr \<lparr>status = 200, body = Inr [0x52, 0x49, 0x46, 0x46]\<rparr>))
            (MinimaxTTS_init ''t-key'') ''Hello'' sys0) = Inr [0x52, 0x49, 0x46, 0x46]
   \<and> (\<exists>b. fst (synthesize (tts_host (Inr \<lparr>status = 500, body = Inl unreachable\<rparr>))
                 (MinimaxTTS_init ''t-key'') [] sys0) = Inr b)
   \<and> fst (synthesize (tts_host (Inl cancelled)) (MinimaxTTS_init ''t-key'') ''Hello'' sys0) = Inl cancelled
   \<and> fst (synthesize (tts_host (Inr \<lparr>status = 200, body = Inl cancelled\<rparr>)) (MinimaxTTS_init ''t-key'')
            ''Hello'' sys0) = Inl cancelled"
proof -
  have p: "fst (session_post_json (tts_host r) u h d w) = r" for r u h d w
    by (simp add: host_defs py_defs)
  have xu: "is_exception unreachable" and xc: "\<not> is_exception cancelled"
    by (simp_all add: unreachable_def cancelled_def)
  have a: "fst (synthesize (tts_host (Inl unreachable)) (MinimaxTTS_init ''t-key'') ''Hello'' sys0) = Inr []"
    by (rule synthesize_fail_soft[where e = unreachable,
                 THEN conjunct2, THEN conjunct2, THEN conjunct1, rule_format])
       (simp add: p xu)
  have b: "fst (synthesize (tts_host (Inr \<lparr>status = 401, body = Inr [0x7B, 0x7D]\<rparr>)) (MinimaxTTS_init ''t-key'')
            ''Hello'' sys0) = Inr []"
    by (rule synthesize_fail_soft[where response = "\<lparr>status = 401, body = Inr [0x7B, 0x7D]\<rparr>",
                 THEN conjunct2, THEN conjunct2, THEN conjunct2, THEN conjunct1, rule_format]) (simp add: p)
  have c: "fst (synthesize (tts_host (Inr \<lparr>status = 200, body = Inl (PyExc ''ClientPayloadError'' ''cut off'')\<rparr>))
            (MinimaxTTS_init ''t-key'') ''Hello'' sys0) = Inr []"
    by (rule synthesize_fail_soft[where response = "\<lparr>status = 200, body = Inl (PyExc ''ClientPayloadError'' ''cut off'')\<rparr>"
                 and e = "PyExc ''ClientPayloadError'' ''cut off''",
                 THEN conjunct2, THEN conjunct2, THEN conjunct2, THEN conjunct2, THEN conjunct1, rule_format])
       (simp add: p)
  have d: "fst (synthesize (tts_host (Inr \<lparr>status = 200, body = Inr [0x52, 0x49, 0x46, 0x46]\<rparr>))
            (MinimaxTTS_init ''t-key'') ''Hello'' sys0) = Inr [0x52, 0x49, 0x46, 0x46]"
    by (rule synthesize_fail_soft[where response = "\<lparr>status = 200, body = Inr [0x52, 0x49, 0x46, 0x46]\<rparr>",
                 THEN conjunct2, THEN conjunct2, THEN conjunct2, THEN conjunct2, THEN conjunct2,
                 THEN conjunct1, rule_format]) (simp add: p)
  have f: "\<exists>b. fst (synthesize (tts_host (Inr \<lparr>status = 500, body = Inl unreachable\<rparr>))
                 (MinimaxTTS_init ''t-key'') [] sys0) = Inr b"
    by (rule synthesize_fail_soft[THEN conjunct2, THEN conjunct1, rule_format]) (simp add: p xu)
  have g: "fst (synthesize (tts_host (Inl cancelled)) (MinimaxTTS_init ''t-key'') ''Hello'' sys0) = Inl cancelled"
    by (rule synthesize_fail_soft[where e = cancelled,
                 THEN conjunct2, THEN conjunct2, THEN conjunct2, THEN conjunct2,
                 THEN conjunct2, THEN conjunct2, THEN conjunct1, rule_format])
       (simp add: p xc)
  have h: "fst (synthesize (tts_host (Inr \<lparr>status = 200, body = Inl cancelled\<rparr>)) (MinimaxTTS_init ''t-key'')
            ''Hello'' sys0) = Inl cancelled"
    by (rule synthesize_fail_soft[where response = "\<lparr>status = 200, body = Inl cancelled\<rparr>"
                 and e = cancelled,
                 THEN conjunct2, THEN conjunct2, THEN conjunct2, THEN conjunct2,
                 THEN conjunct2, THEN conjunct2, THEN conjunct2, rule_format])
       (simp add: p xc)
  from a b c d f g h show ?thesis by blast
qed

section \<open>Construction of the agent\<close>

lemma init_tail:
  assumes "silero_VAD_load host w2 = (Inr v, w3)"
    and "\<forall>options. fst (Agent_init host options w3) = Inr ()"
  shows "fst (py_bind (call VadLoad (silero_VAD_load host))
               (\<lambda>v. py_bind (call (AgentInit (opts v)) (Agent_init host (opts v)))
                      (\<lambda>_. py_return self))
               \<lparr>world = w2, trace = tr\<rparr>) = Inr self"
proof -
  obtain w4 where "Agent_init host (opts v) w3 = (Inr (), w4)"
    using assms(2) by (metis prod.collapse)
  with assms(1) show ?thesis by (simp add: py_defs)
qed

lemma py_all_three:
  "py_all [a, b, c] = (truthy a \<and> truthy b \<and> truthy c)"
  by (simp add: py_all_def)

lemma truthy_iff: "truthy v = (v \<noteq> None \<and> v \<noteq> Some [])"
  by (cases v) (simp_all add: truthy_def)

text \<open>
  Claim C4 as stated (with all three credentials present in the environment, construction
  succeeds) fails for a credential that is present and empty: \<open>not all([...])\<close> tests
  truthiness, so an environment that holds all three variables, one of them the empty
  string, aborts construction with the same error.
\<close>

theorem construction_counterexample:
  "os_getenv (env_host empty_gemini_key) ''GEMINI_API_KEY'' = Some []
   \<and> os_getenv (env_host empty_gemini_key) ''GLADIA_API_KEY'' = Some ''s-key''
   \<and> os_getenv (env_host empty_gemini_key) ''MINIMAX_API_KEY'' = Some ''t-key''
   \<and> fst (HistoryAgent_init (env_host empty_gemini_key) None sys0) = Inl missing_keys"
  by (simp add: HistoryAgent_init_def host_defs py_defs empty_gemini_key_def py_all_three truthy_def)

text \<open>
  Claim C4, as amended.  Construction raises the configuration error, before any call to a
  library and with the state unchanged, whenever at least one of the three credentials is
  absent from the environment or is the empty string.  With all three credentials present
  and not empty, the check passes, and construction returns the agent (holding the three
  adapters with their keys, no chat handle, and the context or the empty string) when the
  library constructors it calls return.
\<close>

theorem construction_credentials:
  fixes host :: "'w host"
  shows
  "((\<exists>k \<in> {''GEMINI_API_KEY'', ''GLADIA_API_KEY'', ''MINIMAX_API_KEY''}.
        os_getenv host k = None \<or> os_getenv host k = Some []) \<longrightarrow>
      HistoryAgent_init host ctx s = (Inl missing_keys, s))
   \<and> (os_getenv host ''GEMINI_API_KEY'' = Some gemini_key \<and> gemini_key \<noteq> []
        \<and> os_getenv host ''GLADIA_API_KEY'' = Some gladia_key \<and> gladia_key \<noteq> []
        \<and> os_getenv host ''MINIMAX_API_KEY'' = Some minimax_key \<and> minimax_key \<noteq> []
        \<and> genai_configure host gemini_key (world s) = (Inr (), w1)
        \<and> genai_GenerativeModel host ''gemini-1.5-pro'' w1 = (Inr m, w2)
        \<and> silero_VAD_load host w2 = (Inr v, w3)
        \<and> (\<forall>options. fst (Agent_init host options w3) = Inr ()) \<longrightarrow>
      fst (HistoryAgent_init host ctx s) =
        Inr \<lparr>gemini_llm = \<lparr>model = m, chat = None\<rparr>,
             gladia_stt = \<lparr>stt_api_key = gladia_key, stt_base_url = ''https://api.gladia.io''\<rparr>,
             minimax_tts = \<lparr>tts_api_key = minimax_key, tts_base_url = ''https://api.minimax.chat''\<rparr>,
             agent_context = (case ctx of None \<Rightarrow> [] | Some c \<Rightarrow> c)\<rparr>)"
proof (intro conjI impI)
  assume "\<exists>k \<in> {''GEMINI_API_KEY'', ''GLADIA_API_KEY'', ''MINIMAX_API_KEY''}.
        os_getenv host k = None \<or> os_getenv host k = Some []"
  then have "\<not> py_all [os_getenv host ''GEMINI_API_KEY'', os_getenv host ''GLADIA_API_KEY'',
                        os_getenv host ''MINIMAX_API_KEY'']"
    by (auto simp: py_all_three truthy_iff)
  then show "HistoryAgent_init host ctx s = (Inl missing_keys, s)"
    by (simp add: HistoryAgent_init_def py_raise_def)
next
  assume a: "os_getenv host ''GEMINI_API_KEY'' = Some gemini_key \<and> gemini_key \<noteq> []
        \<and> os_getenv host ''GLADIA_API_KEY'' = Some gladia_key \<and> gladia_key \<noteq> []
        \<and> os_getenv host ''MINIMAX_API_KEY'' = Some minimax_key \<and> minimax_key \<noteq> []
        \<and> genai_configure host gemini_key (world s) = (Inr (), w1)
        \<and> genai_GenerativeModel host ''gemini-1.5-pro'' w1 = (Inr m, w2)
        \<and> silero_VAD_load host w2 = (Inr v, w3)
        \<and> (\<forall>options. fst (Agent_init host options w3) = Inr ())"
  then have ok: "py_all [os_getenv host ''GEMINI_API_KEY'', os_getenv host ''GLADIA_API_KEY'',
                        os_getenv host ''MINIMAX_API_KEY'']"
    by (simp add: py_all_three truthy_def)
  let ?s2 = "\<lparr>world = w2, trace = trace s @ [Configure gemini_key, NewGenerativeModel ''gemini-1.5-pro'']\<rparr>"
  from a have g: "GeminiLLM_init host gemini_key ''gemini-1.5-pro'' s = (Inr \<lparr>model = m, chat = None\<rparr>, ?s2)"
    by (simp add: GeminiLLM_init_def py_defs)
  from a have vd: "silero_VAD_load host w2 = (Inr v, w3)"
    and ai: "\<forall>options. fst (Agent_init host options w3) = Inr ()"
    by simp_all
  show "fst (HistoryAgent_init host ctx s) =
        Inr \<lparr>gemini_llm = \<lparr>model = m, chat = None\<rparr>,
             gladia_stt = \<lparr>stt_api_key = gladia_key, stt_base_url = ''https://api.gladia.io''\<rparr>,
             minimax_tts = \<lparr>tts_api_key = minimax_key, tts_base_url = ''https://api.minimax.chat''\<rparr>,
             agent_context = (case ctx of None \<Rightarrow> [] | Some c \<Rightarrow> c)\<rparr>"
    using a ok
    by (simp add: HistoryAgent_init_def Let_def GladiaSTT_init_def MinimaxTTS_init_def
          py_bind_Inr[where m = "GeminiLLM_init host gemini_key ''gemini-1.5-pro''" and s = s, OF g]
          init_tail[OF vd ai])
qed

theorem construction_credentials_witness:
  "HistoryAgent_init (env_host (all_keys(''GLADIA_API_KEY'' := None))) (Some ''Rome'') sys0
     = (Inl missing_keys, sys0)
   \<and> fst (HistoryAgent_init (env_host all_keys) (Some ''Rome'') sys0) =
        Inr \<lparr>gemini_llm = \<lparr>model = GenerativeModelObj 0, chat = None\<rparr>,
             gladia_stt = \<lparr>stt_api_key = ''s-key'', stt_base_url = ''https://api.gladia.io''\<rparr>,
             minimax_tts = \<lparr>tts_api_key = ''t-key'', tts_base_url = ''https://api.minimax.chat''\<rparr>,
             agent_context = ''Rome''\<rparr>"
proof -
  have "\<exists>k \<in> {''GEMINI_API_KEY'', ''GLADIA_API_KEY'', ''MINIMAX_API_KEY''}.
          os_getenv (env_host (all_keys(''GLADIA_API_KEY'' := None))) k = None
          \<or> os_getenv (env_host (all_keys(''GLADIA_API_KEY'' := None))) k = Some []"
    by (simp add: host_defs)
  from construction_credentials[THEN conjunct1, rule_format, OF this]
  have a: "HistoryAgent_init (env_host (all_keys(''GLADIA_API_KEY'' := None))) ctx s
     = (Inl missing_keys, s)" for ctx s .
  have "os_getenv (env_host all_keys) ''GEMINI_API_KEY'' = Some ''g-key'' \<and> ''g-key'' \<noteq> []
        \<and> os_getenv (env_host all_keys) ''GLADIA_API_KEY'' = Some ''s-key'' \<and> ''s-key'' \<noteq> []
        \<and> os_getenv (env_host all_keys) ''MINIMAX_API_KEY'' = Some ''t-key'' \<and> ''t-key'' \<noteq> []
        \<and> genai_configure (env_host all_keys) ''g-key'' (world sys0) = (Inr (), ())
        \<and> genai_GenerativeModel (env_host all_keys) ''gemini-1.5-pro'' () = (Inr (GenerativeModelObj 0), ())
        \<and> silero_VAD_load (env_host all_keys) () = (Inr (VadObj 0), ())
        \<and> (\<forall>options. fst (Agent_init (env_host all_keys) options ()) = Inr ())"
    by (simp add: host_defs all_keys_def py_defs)
  from construction_credentials[THEN conjunct2, rule_format, OF this, of "Some ''Rome''"]
  have b: "fst (HistoryAgent_init (env_host all_keys) (Some ''Rome'') sys0) =
        Inr \<lparr>gemini_llm = \<lparr>model = GenerativeModelObj 0, chat = None\<rparr>,
             gladia_stt = \<lparr>stt_api_key = ''s-key'', stt_base_url = ''https://api.gladia.io''\<rparr>,
             minimax_tts = \<lparr>tts_api_key = ''t-key'', tts_base_url = ''https://api.minimax.chat''\<rparr>,
             agent_context = ''Rome''\<rparr>"
    by simp
  from a b show ?thesis by blast
qed

section \<open>The greeting\<close>





section \<open>The knowledge tools\<close>

lemma user_prompt: "convert_messages [[''role'' \<mapsto> ''user'', ''content'' \<mapsto> p]] = ''User: '' @ p"
  by (simp add: convert_messages_def dict_get_def)

lemma historical_info_prompt_contents:
  "sublist topic (historical_info_prompt topic)
   \<and> sublist ''Key historical facts and timeline'' (historical_info_prompt topic)"
proof -
  have "historical_info_prompt topic =
          (''\<newline>        Provide comprehensive historical information about: '' @ topic @
           ''\<newline>        \<newline>        Include:\<newline>        - '') @
          ''Key historical facts and timeline'' @
          (''\<newline>        - Important figures and events'' @
           ''\<newline>        - Cultural and architectural significance'' @
           ''\<newline>        - Interesting stories or legends'' @
           ''\<newline>        - Modern-day relevance or status'' @
           ''\<newline>        '' @
           ''\<newline>        Make it engaging and educational, suitable for someone curious about history.'' @
           ''\<newline>        '')"
    by simp
  then have "sublist ''Key historical facts and timeline'' (historical_info_prompt topic)"
    unfolding sublist_def by blast
  moreover have "sublist topic (historical_info_prompt topic)"
    unfolding sublist_def by blast
  ultimately show ?thesis by blast
qed

lemma time_period_prompt_contents:
  "sublist period (time_period_prompt period)
   \<and> sublist ''Major events and developments'' (time_period_prompt period)"
proof -
  have "time_period_prompt period =
          (''\<newline>        Provide an engaging overview of the historical period: '' @ period @
           ''\<newline>        \<newline>        Include:\<newline>        - '') @
          ''Major events and developments'' @
          (''\<newline>        - Daily life and society'' @
           ''\<newline>        - Important figures and leaders'' @
           ''\<newline>        - Cultural achievements and innovations'' @
           ''\<newline>        - Lasting impact on modern world'' @
           ''\<newline>        '' @
           ''\<newline>        Make it vivid and immersive, as if taking someone on a journey through time.'' @
           ''\<newline>        '')"
    by simp
  then have "sublist ''Major events and developments'' (time_period_prompt period)"
    unfolding sublist_def by blast
  moreover have "sublist period (time_period_prompt period)"
    unfolding sublist_def by blast
  ultimately show ?thesis by blast
qed

text \<open>
  What a knowledge tool returns is the content of the adapter's reply, and what it raises
  is what the adapter lets pass, whatever the model library does: the handler of the tool
  never runs.
\<close>

lemma tool_returns_reply_content:
  fixes host :: "'w host"
  shows "(\<exists>c. fst (chat_completion host ms None (gemini_llm self, s)) = Inr (assistant_reply c)
            \<and> fst (py_try
                  (py_bind (on_llm (chat_completion host ms None)) (\<lambda>response.
                   py_bind (py_lift (first_item (choices response))) (\<lambda>c.
                   py_return (content (message c)))))
                  handler (self, s)) = Inr c)
         \<or> (\<exists>e. \<not> is_exception e
            \<and> fst (chat_completion host ms None (gemini_llm self, s)) = Inl e
            \<and> fst (py_try
                  (py_bind (on_llm (chat_completion host ms None)) (\<lambda>response.
                   py_bind (py_lift (first_item (choices response))) (\<lambda>c.
                   py_return (content (message c)))))
                  handler (self, s)) = Inl e)"
proof -
  from chat_completion_result[of host ms None "(gemini_llm self, s)"]
  show ?thesis
  proof
    assume "\<exists>c. fst (chat_completion host ms None (gemini_llm self, s)) = Inr (assistant_reply c)"
    then obtain c where c: "fst (chat_completion host ms None (gemini_llm self, s)) = Inr (assistant_reply c)"
      by blast
    then have "fst (py_try
                  (py_bind (on_llm (chat_completion host ms None)) (\<lambda>response.
                   py_bind (py_lift (first_item (choices response))) (\<lambda>c.
                   py_return (content (message c)))))
                  handler (self, s)) = Inr c"
      by (cases "chat_completion host ms None (gemini_llm self, s)")
         (auto simp: on_llm_def first_item_def py_defs split: prod.splits sum.splits)
    with c show ?thesis by blast
  next
    assume "\<exists>e. fst (chat_completion host ms None (gemini_llm self, s)) = Inl e \<and> \<not> is_exception e"
    then obtain e where e: "fst (chat_completion host ms None (gemini_llm self, s)) = Inl e"
      and ne: "\<not> is_exception e"
      by blast
    then have "fst (py_try
                  (py_bind (on_llm (chat_completion host ms None)) (\<lambda>response.
                   py_bind (py_lift (first_item (choices response))) (\<lambda>c.
                   py_return (content (message c)))))
                  handler (self, s)) = Inl e"
      by (cases "chat_completion host ms None (gemini_llm self, s)")
         (auto simp: on_llm_def first_item_def py_defs split: prod.splits sum.splits)
    with e ne show ?thesis by blast
  qed
qed

lemma get_historical_info_delegates:
  fixes host :: "'w host"
  shows "(\<exists>c. fst (chat_completion host [[''role'' \<mapsto> ''user'', ''content'' \<mapsto> historical_info_prompt topic]]
                  None (gemini_llm self, s)) = Inr (assistant_reply c)
            \<and> fst (get_historical_info host topic (self, s)) = Inr c)
         \<or> (\<exists>e. \<not> is_exception e
            \<and> fst (chat_completion host [[''role'' \<mapsto> ''user'', ''content'' \<mapsto> historical_info_prompt topic]]
                  None (gemini_llm self, s)) = Inl e
            \<and> fst (get_historical_info host topic (self, s)) = Inl e)"
  unfolding get_historical_info_def Let_def by (rule tool_returns_reply_content)

lemma explore_time_period_delegates:
  fixes host :: "'w host"
  shows "(\<exists>c. fst (chat_completion host [[''role'' \<mapsto> ''user'', ''content'' \<mapsto> time_period_prompt period]]
                  None (gemini_llm self, s)) = Inr (assistant_reply c)
            \<and> fst (explore_time_period host period (self, s)) = Inr c)
         \<or> (\<exists>e. \<not> is_exception e
            \<and> fst (chat_completion host [[''role'' \<mapsto> ''user'', ''content'' \<mapsto> time_period_prompt period]]
                  None (gemini_llm self, s)) = Inl e
            \<and> fst (explore_time_period host period (self, s)) = Inl e)"
  unfolding explore_time_period_def Let_def by (rule tool_returns_reply_content)

lemma tool_trace:
  fixes host :: "'w host"
  assumes "chat (gemini_llm self) = Some h"
  shows "trace (snd (snd (py_try
                  (py_bind (on_llm (chat_completion host ms None)) (\<lambda>response.
                   py_bind (py_lift (first_item (choices response))) (\<lambda>c.
                   py_return (content (message c)))))
                  handler (self, s)))) = trace s @ [SendMessage h (convert_messages ms)]"
proof -
  let ?s1 = "\<lparr>world = snd (chat_send_message host h (convert_messages ms) (world s)),
              trace = trace s @ [SendMessage h (convert_messages ms)]\<rparr>"
  obtain r where c: "chat_completion host ms None (gemini_llm self, s) = (r, (gemini_llm self, ?s1))"
    using chat_completion_with_handle[OF assms, of host ms None s]
    by (cases "chat_completion host ms None (gemini_llm self, s)") simp
  from chat_completion_result[of host ms None "(gemini_llm self, s)"] c
  have "(\<exists>t. r = Inr (assistant_reply t)) \<or> (\<exists>e. r = Inl e \<and> \<not> is_exception e)"
    by simp
  then show ?thesis
    using c by (auto simp: on_llm_def first_item_def py_defs)
qed

lemma get_historical_info_one_prompt:
  fixes host :: "'w host"
  assumes "chat (gemini_llm self) = Some h"
  shows "trace (snd (snd (get_historical_info host topic (self, s)))) =
           trace s @ [SendMessage h (''User: '' @ historical_info_prompt topic)]"
  unfolding get_historical_info_def Let_def tool_trace[OF assms] user_prompt ..

lemma explore_time_period_one_prompt:
  fixes host :: "'w host"
  assumes "chat (gemini_llm self) = Some h"
  shows "trace (snd (snd (explore_time_period host period (self, s)))) =
           trace s @ [SendMessage h (''User: '' @ time_period_prompt period)]"
  unfolding explore_time_period_def Let_def tool_trace[OF assms] user_prompt ..

text \<open>
  Claim C7 at a failing model call.  With a chat session whose \<open>send_message\<close> raises
  \<open>RuntimeError("boom")\<close>, \<open>get_historical_info("Rome")\<close> and
  \<open>explore_time_period("Ancient Rome")\<close> return the adapter's apology with the error
  text, which does not name the topic; the canned apologies of the two handlers are not
  returned.
\<close>

theorem tool_failure_not_canned:
  "fst (get_historical_info (llm_host (Inr (ChatSessionObj 7)) (Inl boom)) ''Rome'' (agent0, sys0))
     = Inr ''I apologize, but I encountered an error: boom''
   \<and> fst (get_historical_info (llm_host (Inr (ChatSessionObj 7)) (Inl boom)) ''Rome'' (agent0, sys0))
     \<noteq> Inr ''I encountered an issue researching Rome. Let me share what I know from my training data instead.''
   \<and> \<not> sublist ''Rome'' ''I apologize, but I encountered an error: boom''
   \<and> fst (explore_time_period (llm_host (Inr (ChatSessionObj 7)) (Inl boom)) ''Ancient Rome'' (agent0, sys0))
     = Inr ''I apologize, but I encountered an error: boom''
   \<and> fst (explore_time_period (llm_host (Inr (ChatSessionObj 7)) (Inl boom)) ''Ancient Rome'' (agent0, sys0))
     \<noteq> Inr ''I had trouble exploring that time period in detail. Let me share what I know about Ancient Rome from my knowledge.''"
proof -
  have c: "chat_completion (llm_host (Inr (ChatSessionObj 7)) (Inl boom)) ms None (llm0, sys0)
      = (Inr (assistant_reply ''I apologize, but I encountered an error: boom''),
         (llm0\<lparr>chat := Some (ChatSessionObj 7)\<rparr>,
          \<lparr>world = (), trace = [StartChat (GenerativeModelObj 0),
                                 SendMessage (ChatSessionObj 7) (convert_messages ms)]\<rparr>))" for ms
    by (simp add: chat_completion_def init_chat_def send_prompt_def host_defs py_defs)
  have g: "gemini_llm agent0 = llm0" by (simp add: agent0_def)
  have a: "fst (get_historical_info (llm_host (Inr (ChatSessionObj 7)) (Inl boom)) ''Rome'' (agent0, sys0))
     = Inr ''I apologize, but I encountered an error: boom''"
    by (simp add: get_historical_info_def on_llm_def g c first_item_def py_try_def py_bind_def
          py_return_def py_lift_def Let_def del: append.simps)
  have b: "fst (explore_time_period (llm_host (Inr (ChatSessionObj 7)) (Inl boom)) ''Ancient Rome'' (agent0, sys0))
     = Inr ''I apologize, but I encountered an error: boom''"
    by (simp add: explore_time_period_def on_llm_def g c first_item_def py_try_def py_bind_def
          py_return_def py_lift_def Let_def del: append.simps)
  have n: "\<not> sublist ''Rome'' ''I apologize, but I encountered an error: boom''"
    by code_simp
  show ?thesis unfolding a b using n by simp
qed

end
